theory Spec2Isabelle
  imports Main "HOL-Library.Word" "HOL-Library.Signed_Division" "HOL-Library.Log_Nat"
begin

unbundle bit_operations_syntax

section \<open>Machine types\<close>

text \<open>
  The C types \<^verbatim>\<open>int\<close>, \<^verbatim>\<open>int32_t\<close> and \<^verbatim>\<open>uint32_t\<close> are 32-bit words; arithmetic on them
  wraps around. A signed reading is written \<open>sint\<close>, an unsigned one \<open>unat\<close>; the order
  \<open>\<le>\<close> on words is the unsigned one, which is what C uses once an operand is
  \<^verbatim>\<open>uint32_t\<close>. Return codes are small and never computed with, so they are plain
  integers.
\<close>

type_synonym u32 = "32 word"
type_synonym i32 = "32 word"

section \<open>Error catalog\<close>

text \<open>
  Modelled from the spec: the enumeration of the error codes is declared in the sensor
  header, which is not in this file. The spec numbers the taxonomy in the order of the
  description table of \<^verbatim>\<open>sensor_strerror\<close>, with zero for success and negative values for
  failures, and the file has "sensor errors are negative": the code of an error is the
  negated index of its description.
\<close>

definition SENSOR_ERROR_CTL_FAILED :: int where
  "SENSOR_ERROR_CTL_FAILED = - 1"

definition SENSOR_ERROR_CTL_UNSUPPORTED :: int where
  "SENSOR_ERROR_CTL_UNSUPPORTED = - 2"

definition SENSOR_ERROR_IO_ERROR :: int where
  "SENSOR_ERROR_IO_ERROR = - 9"

definition SENSOR_ERROR_INVALID_FRAMESIZE :: int where
  "SENSOR_ERROR_INVALID_FRAMESIZE = - 12"

definition SENSOR_ERROR_INVALID_PIXFORMAT :: int where
  "SENSOR_ERROR_INVALID_PIXFORMAT = - 13"

definition SENSOR_ERROR_PIXFORMAT_UNSUPPORTED :: int where
  "SENSOR_ERROR_PIXFORMAT_UNSUPPORTED = - 17"

definition sensor_errors :: "string list" where
  "sensor_errors =
    [''No error.'',
     ''Sensor control failed.'',
     ''The requested operation is not supported by the image sensor.'',
     ''Failed to detect the image sensor or image sensor is detached.'',
     ''The detected image sensor is not supported.'',
     ''Failed to initialize the image sensor.'',
     ''Failed to initialize the external clock.'',
     ''Failed to initialize the CSI DMA.'',
     ''Failed to initialize the CSI interface.'',
     ''An low level I/O error has occurred.'',
     ''Frame capture has failed.'',
     ''Frame capture has timed out.'',
     ''Frame size is not supported or is not set.'',
     ''Pixel format is not supported or is not set.'',
     ''Window is not supported or is not set.'',
     ''Frame rate is not supported or is not set.'',
     ''An invalid argument is used.'',
     ''The requested operation is not supported on the current pixel format.'',
     ''Frame buffer error.'',
     ''Frame buffer overflow, try reducing the frame size.'',
     ''JPEG frame buffer overflow.'']"

text \<open>
  \<^verbatim>\<open>sensor_strerror\<close>. The argument is negated when it is negative, then compared with
  the number of table entries. That number is a \<^verbatim>\<open>size_t\<close>, so the comparison is
  unsigned. The result \<open>None\<close> is undefined behaviour: the negation of \<^verbatim>\<open>INT_MIN\<close>, which
  overflows, or a read of \<^verbatim>\<open>sensor_errors[error]\<close> at an index that the table does not
  have.
\<close>

definition sensor_strerror :: "i32 \<Rightarrow> string option" where
  "sensor_strerror error0 =
    (if error0 = - (2 ^ 31) then None
     else
       (let error = (if sint error0 < 0 then error0 * (- 1) else error0) in
        if of_nat (length sensor_errors) < error then Some ''Unknown error.''
        else if unat error < length sensor_errors then Some (sensor_errors ! unat error)
        else None))"

section \<open>Data model\<close>

text \<open>
  The types of the sensor record, of the frame geometry and of their fields are declared
  in headers that are not in this file. The model has the fields and values that the
  file uses, under their names.

  Pixel formats: the file names six values of \<^verbatim>\<open>pixformat_t\<close>; every other value of the
  enumeration is \<open>PIXFORMAT_OTHER\<close> with its number.
\<close>

datatype pixformat_t =
    PIXFORMAT_INVALID
  | PIXFORMAT_GRAYSCALE
  | PIXFORMAT_RGB565
  | PIXFORMAT_BAYER
  | PIXFORMAT_YUV422
  | PIXFORMAT_JPEG
  | PIXFORMAT_OTHER nat

text \<open>
  Frame sizes: one value for each row of the resolution table, under the name that the
  table's comment gives the row, so that \<^verbatim>\<open>resolution[framesize]\<close> is a total function.
\<close>

datatype framesize_t =
    FRAMESIZE_INVALID
  | FRAMESIZE_QQCIF | FRAMESIZE_QCIF | FRAMESIZE_CIF
  | FRAMESIZE_QQSIF | FRAMESIZE_QSIF | FRAMESIZE_SIF
  | FRAMESIZE_QQQQVGA | FRAMESIZE_QQQVGA | FRAMESIZE_QQVGA | FRAMESIZE_QVGA | FRAMESIZE_VGA
  | FRAMESIZE_HQQQQVGA | FRAMESIZE_HQQQVGA | FRAMESIZE_HQQVGA | FRAMESIZE_HQVGA | FRAMESIZE_HVGA
  | FRAMESIZE_64X32 | FRAMESIZE_64X64 | FRAMESIZE_128X64 | FRAMESIZE_128X128
  | FRAMESIZE_160X160 | FRAMESIZE_320X320
  | FRAMESIZE_LCD | FRAMESIZE_QQVGA2 | FRAMESIZE_WVGA | FRAMESIZE_WVGA2
  | FRAMESIZE_SVGA | FRAMESIZE_XGA | FRAMESIZE_WXGA | FRAMESIZE_SXGA | FRAMESIZE_SXGAM
  | FRAMESIZE_UXGA | FRAMESIZE_HD | FRAMESIZE_FHD | FRAMESIZE_QHD | FRAMESIZE_QXGA
  | FRAMESIZE_WQXGA | FRAMESIZE_WQXGA2

fun resolution :: "framesize_t \<Rightarrow> i32 \<times> i32" where
  "resolution FRAMESIZE_INVALID = (0, 0)"
| "resolution FRAMESIZE_QQCIF = (88, 72)"
| "resolution FRAMESIZE_QCIF = (176, 144)"
| "resolution FRAMESIZE_CIF = (352, 288)"
| "resolution FRAMESIZE_QQSIF = (88, 60)"
| "resolution FRAMESIZE_QSIF = (176, 120)"
| "resolution FRAMESIZE_SIF = (352, 240)"
| "resolution FRAMESIZE_QQQQVGA = (40, 30)"
| "resolution FRAMESIZE_QQQVGA = (80, 60)"
| "resolution FRAMESIZE_QQVGA = (160, 120)"
| "resolution FRAMESIZE_QVGA = (320, 240)"
| "resolution FRAMESIZE_VGA = (640, 480)"
| "resolution FRAMESIZE_HQQQQVGA = (30, 20)"
| "resolution FRAMESIZE_HQQQVGA = (60, 40)"
| "resolution FRAMESIZE_HQQVGA = (120, 80)"
| "resolution FRAMESIZE_HQVGA = (240, 160)"
| "resolution FRAMESIZE_HVGA = (480, 320)"
| "resolution FRAMESIZE_64X32 = (64, 32)"
| "resolution FRAMESIZE_64X64 = (64, 64)"
| "resolution FRAMESIZE_128X64 = (128, 64)"
| "resolution FRAMESIZE_128X128 = (128, 128)"
| "resolution FRAMESIZE_160X160 = (160, 160)"
| "resolution FRAMESIZE_320X320 = (320, 320)"
| "resolution FRAMESIZE_LCD = (128, 160)"
| "resolution FRAMESIZE_QQVGA2 = (128, 160)"
| "resolution FRAMESIZE_WVGA = (720, 480)"
| "resolution FRAMESIZE_WVGA2 = (752, 480)"
| "resolution FRAMESIZE_SVGA = (800, 600)"
| "resolution FRAMESIZE_XGA = (1024, 768)"
| "resolution FRAMESIZE_WXGA = (1280, 768)"
| "resolution FRAMESIZE_SXGA = (1280, 1024)"
| "resolution FRAMESIZE_SXGAM = (1280, 960)"
| "resolution FRAMESIZE_UXGA = (1600, 1200)"
| "resolution FRAMESIZE_HD = (1280, 720)"
| "resolution FRAMESIZE_FHD = (1920, 1080)"
| "resolution FRAMESIZE_QHD = (2560, 1440)"
| "resolution FRAMESIZE_QXGA = (2048, 1536)"
| "resolution FRAMESIZE_WQXGA = (2560, 1600)"
| "resolution FRAMESIZE_WQXGA2 = (2592, 1944)"

text \<open>
  A value of C type \<^verbatim>\<open>float\<close> is the rational number it denotes. The setters only hand
  such values on to the driver; the geometry engine computes with them (see there).
\<close>

type_synonym c_float = rat

text \<open>
  A driver hook works on the sensor chip, which is outside the core: it is a function on
  a hardware state of an arbitrary type \<open>'hw\<close> that returns the hook's \<^verbatim>\<open>int\<close> result. An
  absent hook (\<^verbatim>\<open>NULL\<close>) is \<open>None\<close>.
\<close>

type_synonym 'hw hook = "'hw \<Rightarrow> int \<times> 'hw"

record 'hw sensor_t =
  pixformat :: pixformat_t
  framesize :: framesize_t
  framerate :: i32
  first_line :: bool
  drop_frame :: bool
  last_frame_ms :: u32
  last_frame_ms_valid :: bool
  gainceiling :: i32
  sde :: i32
  hmirror :: bool
  vflip :: bool
  transpose :: bool
  auto_rotation :: bool
  disable_delays :: bool
  raw_output :: bool
  mono_bpp :: u32
  rgb_swap :: bool
  yuv_swap :: bool
  read_reg :: "(16 word \<Rightarrow> 'hw hook) option"
  write_reg :: "(16 word \<Rightarrow> 16 word \<Rightarrow> 'hw hook) option"
  set_pixformat :: "(pixformat_t \<Rightarrow> 'hw hook) option"
  set_framesize :: "(framesize_t \<Rightarrow> 'hw hook) option"
  set_contrast :: "(i32 \<Rightarrow> 'hw hook) option"
  set_brightness :: "(i32 \<Rightarrow> 'hw hook) option"
  set_saturation :: "(i32 \<Rightarrow> 'hw hook) option"
  set_gainceiling :: "(i32 \<Rightarrow> 'hw hook) option"
  set_quality :: "(i32 \<Rightarrow> 'hw hook) option"
  set_colorbar :: "(i32 \<Rightarrow> 'hw hook) option"
  set_auto_gain :: "(i32 \<Rightarrow> c_float \<Rightarrow> c_float \<Rightarrow> 'hw hook) option"
  set_auto_exposure :: "(i32 \<Rightarrow> i32 \<Rightarrow> 'hw hook) option"
  set_auto_whitebal :: "(i32 \<Rightarrow> c_float \<Rightarrow> c_float \<Rightarrow> c_float \<Rightarrow> 'hw hook) option"
  set_auto_blc :: "(i32 \<Rightarrow> i32 list \<Rightarrow> 'hw hook) option"
  set_hmirror :: "(i32 \<Rightarrow> 'hw hook) option"
  set_vflip :: "(i32 \<Rightarrow> 'hw hook) option"
  set_special_effect :: "(i32 \<Rightarrow> 'hw hook) option"
  set_lens_correction :: "(i32 \<Rightarrow> i32 \<Rightarrow> i32 \<Rightarrow> 'hw hook) option"
  ioctl :: "(i32 \<Rightarrow> i32 list \<Rightarrow> 'hw hook) option"

text \<open>The geometry record of the main frame buffer, \<^verbatim>\<open>MAIN_FB()\<close>.\<close>

record framebuffer_t =
  x :: i32
  y :: i32
  w :: i32
  h :: i32
  u :: i32
  v :: i32
  pixfmt :: pixformat_t
  frame_size :: u32

text \<open>
  What a call does outside the sensor record and the geometry record is kept in a trace,
  in the order of the calls: capture aborts, flushes of the compressed-frame buffer,
  settle delays, calls of driver hooks (by the name of the slot), buffer-count requests
  and hardware reconfigurations.
\<close>

datatype config_t = SENSOR_CONFIG_PIXFORMAT | SENSOR_CONFIG_FRAMESIZE | SENSOR_CONFIG_WINDOWING

datatype event =
    Abort bool bool
  | UpdateJpegBuffer
  | DelayMs nat
  | Hook string
  | SetBuffers i32
  | Config config_t

record 'hw state =
  sensor :: "'hw sensor_t"
  MAIN_FB :: framebuffer_t
  hw :: 'hw
  trace :: "event list"

text \<open>
  What the file takes from the board configuration and from the frame-buffer
  collaborator: the capacity that \<^verbatim>\<open>framebuffer_get_buffer_size()\<close> reports, the
  compile-time switch \<^verbatim>\<open>OMV_CSI_HW_CROP_ENABLE\<close>, and \<^verbatim>\<open>framebuffer_set_buffers\<close>.
\<close>

record 'hw board =
  framebuffer_get_buffer_size :: u32
  OMV_CSI_HW_CROP_ENABLE :: bool
  framebuffer_set_buffers :: "i32 \<Rightarrow> 'hw hook"

section \<open>Collaborators\<close>

text \<open>
  \<^verbatim>\<open>sensor_abort\<close> and \<^verbatim>\<open>sensor_config\<close> are the weak defaults of this file: the first
  returns "control unsupported", the second 0, and neither touches the sensor record.
  \<^verbatim>\<open>framebuffer_update_jpeg_buffer\<close> and \<^verbatim>\<open>mp_hal_delay_ms\<close> belong to other modules and
  only leave their event. A driver hook is run on the hardware state.
\<close>

definition sensor_abort :: "bool \<Rightarrow> bool \<Rightarrow> 'hw state \<Rightarrow> int \<times> 'hw state" where
  "sensor_abort fifo_flush in_irq s =
    (SENSOR_ERROR_CTL_UNSUPPORTED, s\<lparr>trace := trace s @ [Abort fifo_flush in_irq]\<rparr>)"

definition sensor_config :: "config_t \<Rightarrow> 'hw state \<Rightarrow> int \<times> 'hw state" where
  "sensor_config config s = (0, s\<lparr>trace := trace s @ [Config config]\<rparr>)"

definition framebuffer_update_jpeg_buffer :: "'hw state \<Rightarrow> 'hw state" where
  "framebuffer_update_jpeg_buffer s = s\<lparr>trace := trace s @ [UpdateJpegBuffer]\<rparr>"

definition mp_hal_delay_ms :: "nat \<Rightarrow> 'hw state \<Rightarrow> 'hw state" where
  "mp_hal_delay_ms ms s = s\<lparr>trace := trace s @ [DelayMs ms]\<rparr>"

definition call_hook :: "string \<Rightarrow> 'hw hook \<Rightarrow> 'hw state \<Rightarrow> int \<times> 'hw state" where
  "call_hook name f s =
    (let (ret, hw1) = f (hw s) in (ret, s\<lparr>hw := hw1, trace := trace s @ [Hook name]\<rparr>))"

text \<open>The driver hooks that a trace records, in order.\<close>

fun hook_calls :: "event list \<Rightarrow> string list" where
  "hook_calls [] = []"
| "hook_calls (Hook name # es) = name # hook_calls es"
| "hook_calls (e # es) = hook_calls es"

section \<open>Control surface\<close>

definition sensor_read_reg :: "16 word \<Rightarrow> 'hw state \<Rightarrow> int \<times> 'hw state" where
  "sensor_read_reg reg_addr s =
    (case read_reg (sensor s) of
       None \<Rightarrow> (SENSOR_ERROR_CTL_UNSUPPORTED, s)
     | Some f \<Rightarrow>
         (let (ret, s1) = call_hook ''read_reg'' (f reg_addr) s in
          if ret = - 1 then (SENSOR_ERROR_IO_ERROR, s1) else (ret, s1)))"

definition sensor_write_reg :: "16 word \<Rightarrow> 16 word \<Rightarrow> 'hw state \<Rightarrow> int \<times> 'hw state" where
  "sensor_write_reg reg_addr reg_data s =
    (case write_reg (sensor s) of
       None \<Rightarrow> (SENSOR_ERROR_CTL_UNSUPPORTED, s)
     | Some f \<Rightarrow>
         (let (ret, s1) = call_hook ''write_reg'' (f reg_addr reg_data) s in
          if ret = - 1 then (SENSOR_ERROR_IO_ERROR, s1) else (0, s1)))"

definition sensor_get_cropped :: "'hw state \<Rightarrow> bool" where
  "sensor_get_cropped s =
    (if framesize (sensor s) \<noteq> FRAMESIZE_INVALID then
       x (MAIN_FB s) \<noteq> 0 \<or> y (MAIN_FB s) \<noteq> 0 \<or>
       u (MAIN_FB s) \<noteq> fst (resolution (framesize (sensor s))) \<or>
       v (MAIN_FB s) \<noteq> snd (resolution (framesize (sensor s)))
     else False)"

definition sensor_get_src_bpp :: "'hw state \<Rightarrow> u32" where
  "sensor_get_src_bpp s =
    (if raw_output (sensor s) then 1
     else case pixformat (sensor s) of
         PIXFORMAT_BAYER \<Rightarrow> 1
       | PIXFORMAT_JPEG \<Rightarrow> 1
       | PIXFORMAT_RGB565 \<Rightarrow> 2
       | PIXFORMAT_YUV422 \<Rightarrow> 2
       | PIXFORMAT_GRAYSCALE \<Rightarrow> mono_bpp (sensor s)
       | _ \<Rightarrow> 0)"

definition sensor_get_dst_bpp :: "'hw state \<Rightarrow> u32" where
  "sensor_get_dst_bpp s =
    (case pixformat (sensor s) of
       PIXFORMAT_GRAYSCALE \<Rightarrow> 1
     | PIXFORMAT_BAYER \<Rightarrow> 1
     | PIXFORMAT_RGB565 \<Rightarrow> 2
     | PIXFORMAT_YUV422 \<Rightarrow> 2
     | _ \<Rightarrow> 0)"

text \<open>
  Modelled from the spec: the macros \<^verbatim>\<open>IM_MAX\<close> and \<^verbatim>\<open>IM_MIN\<close> are not defined in this
  file; the spec has "the maximum of source and destination bytes-per-pixel" and
  "larger-over-smaller dimension" for their two uses. \<open>IM_MAX_u32\<close> is the use on
  \<^verbatim>\<open>uint32_t\<close>, the other two are the uses on \<^verbatim>\<open>int\<close>.
\<close>

definition IM_MAX_u32 :: "u32 \<Rightarrow> u32 \<Rightarrow> u32" where
  "IM_MAX_u32 a b = (if b < a then a else b)"

definition IM_MAX :: "i32 \<Rightarrow> i32 \<Rightarrow> i32" where
  "IM_MAX a b = (if sint b < sint a then a else b)"

definition IM_MIN :: "i32 \<Rightarrow> i32 \<Rightarrow> i32" where
  "IM_MIN a b = (if sint a < sint b then a else b)"

definition sensor_set_framebuffers :: "'hw board \<Rightarrow> i32 \<Rightarrow> 'hw state \<Rightarrow> int \<times> 'hw state" where
  "sensor_set_framebuffers board count s =
    (let s1 = snd (sensor_abort True False s);
         s2 = framebuffer_update_jpeg_buffer s1
     in if pixformat (sensor s2) = PIXFORMAT_INVALID then (SENSOR_ERROR_INVALID_PIXFORMAT, s2)
        else if framesize (sensor s2) = FRAMESIZE_INVALID then (SENSOR_ERROR_INVALID_FRAMESIZE, s2)
        else
          (let bpp = IM_MAX_u32 (sensor_get_src_bpp s2) (sensor_get_dst_bpp s2);
               fsz = (if OMV_CSI_HW_CROP_ENABLE board
                      then u (MAIN_FB s2) * v (MAIN_FB s2) * bpp
                      else fst (resolution (framesize (sensor s2))) *
                           snd (resolution (framesize (sensor s2))) * bpp);
               s3 = s2\<lparr>MAIN_FB := (MAIN_FB s2)\<lparr>frame_size := fsz\<rparr>\<rparr>;
               (ret, hw1) = framebuffer_set_buffers board count (hw s3)
           in (ret, s3\<lparr>hw := hw1, trace := trace s3 @ [SetBuffers count]\<rparr>)))"

definition sensor_set_pixformat :: "'hw board \<Rightarrow> pixformat_t \<Rightarrow> 'hw state \<Rightarrow> int \<times> 'hw state" where
  "sensor_set_pixformat board pixformat' s =
    (if pixformat (sensor s) = pixformat' then (0, s)
     else
       (let size = framebuffer_get_buffer_size board in
        if pixformat (sensor s) = PIXFORMAT_BAYER \<and>
           (pixformat' = PIXFORMAT_RGB565 \<or> pixformat' = PIXFORMAT_YUV422) \<and>
           size < u (MAIN_FB s) * v (MAIN_FB s) * 2 \<and>
           u (MAIN_FB s) * v (MAIN_FB s) * 1 \<le> size
        then (0, s)
        else if (pixformat' = PIXFORMAT_YUV422 \<and>
                   (transpose (sensor s) \<or> auto_rotation (sensor s))) \<or>
                (pixformat' = PIXFORMAT_JPEG \<and>
                   (sensor_get_cropped s \<or> transpose (sensor s) \<or> auto_rotation (sensor s)))
        then (SENSOR_ERROR_PIXFORMAT_UNSUPPORTED, s)
        else
          (let s1 = snd (sensor_abort True False s);
               s2 = framebuffer_update_jpeg_buffer s1
           in case set_pixformat (sensor s2) of
                None \<Rightarrow> (SENSOR_ERROR_CTL_UNSUPPORTED, s2)
              | Some f \<Rightarrow>
                  (let (ret, s3) = call_hook ''set_pixformat'' (f pixformat') s2 in
                   if ret \<noteq> 0 then (SENSOR_ERROR_CTL_FAILED, s3)
                   else
                     (let s4 = (if \<not> disable_delays (sensor s3)
                                then mp_hal_delay_ms 100 s3 else s3);
                          s5 = s4\<lparr>sensor := (sensor s4)\<lparr>pixformat := pixformat'\<rparr>\<rparr>;
                          s6 = s5\<lparr>MAIN_FB := (MAIN_FB s5)\<lparr>pixfmt := PIXFORMAT_INVALID\<rparr>\<rparr>;
                          s7 = snd (sensor_set_framebuffers board (- 1) s6)
                      in sensor_config SENSOR_CONFIG_PIXFORMAT s7)))))"

definition sensor_set_framesize :: "'hw board \<Rightarrow> framesize_t \<Rightarrow> 'hw state \<Rightarrow> int \<times> 'hw state" where
  "sensor_set_framesize board framesize' s =
    (if framesize (sensor s) = framesize' then (0, s)
     else
       (let s1 = snd (sensor_abort True False s);
            s2 = framebuffer_update_jpeg_buffer s1
        in case set_framesize (sensor s2) of
             None \<Rightarrow> (SENSOR_ERROR_CTL_UNSUPPORTED, s2)
           | Some f \<Rightarrow>
               (let (ret, s3) = call_hook ''set_framesize'' (f framesize') s2 in
                if ret \<noteq> 0 then (SENSOR_ERROR_CTL_FAILED, s3)
                else
                  (let s4 = (if \<not> disable_delays (sensor s3)
                             then mp_hal_delay_ms 100 s3 else s3);
                       s5 = s4\<lparr>sensor := (sensor s4)\<lparr>framesize := framesize'\<rparr>\<rparr>;
                       s6 = s5\<lparr>MAIN_FB := (MAIN_FB s5)
                              \<lparr>x := 0, y := 0,
                               w := fst (resolution framesize'), h := snd (resolution framesize'),
                               u := fst (resolution framesize'), v := snd (resolution framesize'),
                               pixfmt := PIXFORMAT_INVALID\<rparr>\<rparr>;
                       s7 = snd (sensor_set_framebuffers board (- 1) s6)
                   in sensor_config SENSOR_CONFIG_FRAMESIZE s7))))"

definition sensor_set_windowing ::
  "'hw board \<Rightarrow> i32 \<Rightarrow> i32 \<Rightarrow> i32 \<Rightarrow> i32 \<Rightarrow> 'hw state \<Rightarrow> int \<times> 'hw state" where
  "sensor_set_windowing board x' y' w' h' s =
    (if x (MAIN_FB s) = x' \<and> y (MAIN_FB s) = y' \<and> u (MAIN_FB s) = w' \<and> v (MAIN_FB s) = h'
     then (0, s)
     else if pixformat (sensor s) = PIXFORMAT_JPEG then (SENSOR_ERROR_PIXFORMAT_UNSUPPORTED, s)
     else
       (let s1 = snd (sensor_abort True False s);
            s2 = framebuffer_update_jpeg_buffer s1;
            s3 = s2\<lparr>MAIN_FB := (MAIN_FB s2)
                   \<lparr>x := x', y := y', w := w', h := h', u := w', v := h',
                    pixfmt := PIXFORMAT_INVALID\<rparr>\<rparr>;
            s4 = snd (sensor_set_framebuffers board (- 1) s3)
        in sensor_config SENSOR_CONFIG_WINDOWING s4))"

definition sensor_set_contrast :: "i32 \<Rightarrow> 'hw state \<Rightarrow> int \<times> 'hw state" where
  "sensor_set_contrast level s =
    (case set_contrast (sensor s) of
       None \<Rightarrow> (SENSOR_ERROR_CTL_UNSUPPORTED, s)
     | Some f \<Rightarrow>
         (let (ret, s1) = call_hook ''set_contrast'' (f level) s in
          if ret \<noteq> 0 then (SENSOR_ERROR_CTL_FAILED, s1) else (0, s1)))"

definition sensor_set_brightness :: "i32 \<Rightarrow> 'hw state \<Rightarrow> int \<times> 'hw state" where
  "sensor_set_brightness level s =
    (case set_brightness (sensor s) of
       None \<Rightarrow> (SENSOR_ERROR_CTL_UNSUPPORTED, s)
     | Some f \<Rightarrow>
         (let (ret, s1) = call_hook ''set_brightness'' (f level) s in
          if ret \<noteq> 0 then (SENSOR_ERROR_CTL_FAILED, s1) else (0, s1)))"

definition sensor_set_saturation :: "i32 \<Rightarrow> 'hw state \<Rightarrow> int \<times> 'hw state" where
  "sensor_set_saturation level s =
    (case set_saturation (sensor s) of
       None \<Rightarrow> (SENSOR_ERROR_CTL_UNSUPPORTED, s)
     | Some f \<Rightarrow>
         (let (ret, s1) = call_hook ''set_saturation'' (f level) s in
          if ret \<noteq> 0 then (SENSOR_ERROR_CTL_FAILED, s1) else (0, s1)))"

definition sensor_set_gainceiling :: "i32 \<Rightarrow> 'hw state \<Rightarrow> int \<times> 'hw state" where
  "sensor_set_gainceiling gainceiling' s =
    (if gainceiling (sensor s) = gainceiling' then (0, s)
     else
       (case set_gainceiling (sensor s) of
          None \<Rightarrow> (SENSOR_ERROR_CTL_UNSUPPORTED, s)
        | Some f \<Rightarrow>
            (let (ret, s1) = call_hook ''set_gainceiling'' (f gainceiling') s in
             if ret \<noteq> 0 then (SENSOR_ERROR_CTL_FAILED, s1)
             else (0, s1\<lparr>sensor := (sensor s1)\<lparr>gainceiling := gainceiling'\<rparr>\<rparr>))))"

definition sensor_set_quality :: "i32 \<Rightarrow> 'hw state \<Rightarrow> int \<times> 'hw state" where
  "sensor_set_quality qs s =
    (case set_quality (sensor s) of
       None \<Rightarrow> (SENSOR_ERROR_CTL_UNSUPPORTED, s)
     | Some f \<Rightarrow>
         (let (ret, s1) = call_hook ''set_quality'' (f qs) s in
          if ret \<noteq> 0 then (SENSOR_ERROR_CTL_FAILED, s1) else (0, s1)))"

definition sensor_set_colorbar :: "i32 \<Rightarrow> 'hw state \<Rightarrow> int \<times> 'hw state" where
  "sensor_set_colorbar enable s =
    (case set_colorbar (sensor s) of
       None \<Rightarrow> (SENSOR_ERROR_CTL_UNSUPPORTED, s)
     | Some f \<Rightarrow>
         (let (ret, s1) = call_hook ''set_colorbar'' (f enable) s in
          if ret \<noteq> 0 then (SENSOR_ERROR_CTL_FAILED, s1) else (0, s1)))"

definition sensor_set_auto_gain :: "i32 \<Rightarrow> c_float \<Rightarrow> c_float \<Rightarrow> 'hw state \<Rightarrow> int \<times> 'hw state" where
  "sensor_set_auto_gain enable gain_db gain_db_ceiling s =
    (case set_auto_gain (sensor s) of
       None \<Rightarrow> (SENSOR_ERROR_CTL_UNSUPPORTED, s)
     | Some f \<Rightarrow>
         (let (ret, s1) = call_hook ''set_auto_gain'' (f enable gain_db gain_db_ceiling) s in
          if ret \<noteq> 0 then (SENSOR_ERROR_CTL_FAILED, s1) else (0, s1)))"

definition sensor_set_auto_exposure :: "i32 \<Rightarrow> i32 \<Rightarrow> 'hw state \<Rightarrow> int \<times> 'hw state" where
  "sensor_set_auto_exposure enable exposure_us s =
    (case set_auto_exposure (sensor s) of
       None \<Rightarrow> (SENSOR_ERROR_CTL_UNSUPPORTED, s)
     | Some f \<Rightarrow>
         (let (ret, s1) = call_hook ''set_auto_exposure'' (f enable exposure_us) s in
          if ret \<noteq> 0 then (SENSOR_ERROR_CTL_FAILED, s1) else (0, s1)))"

definition sensor_set_auto_whitebal :: "i32 \<Rightarrow> c_float \<Rightarrow> c_float \<Rightarrow> c_float \<Rightarrow> 'hw state \<Rightarrow> int \<times> 'hw state" where
  "sensor_set_auto_whitebal enable r_gain_db g_gain_db b_gain_db s =
    (case set_auto_whitebal (sensor s) of
       None \<Rightarrow> (SENSOR_ERROR_CTL_UNSUPPORTED, s)
     | Some f \<Rightarrow>
         (let (ret, s1) = call_hook ''set_auto_whitebal'' (f enable r_gain_db g_gain_db b_gain_db) s in
          if ret \<noteq> 0 then (SENSOR_ERROR_CTL_FAILED, s1) else (0, s1)))"

definition sensor_set_auto_blc :: "i32 \<Rightarrow> i32 list \<Rightarrow> 'hw state \<Rightarrow> int \<times> 'hw state" where
  "sensor_set_auto_blc enable regs s =
    (case set_auto_blc (sensor s) of
       None \<Rightarrow> (SENSOR_ERROR_CTL_UNSUPPORTED, s)
     | Some f \<Rightarrow>
         (let (ret, s1) = call_hook ''set_auto_blc'' (f enable regs) s in
          if ret \<noteq> 0 then (SENSOR_ERROR_CTL_FAILED, s1) else (0, s1)))"

text \<open>
  In \<^verbatim>\<open>sensor_set_hmirror\<close> and \<^verbatim>\<open>sensor_set_vflip\<close> the \<^verbatim>\<open>int\<close> argument is compared
  and stored as a \<^verbatim>\<open>bool\<close>, that is as \<open>enable \<noteq> 0\<close>.
\<close>

definition sensor_set_hmirror :: "i32 \<Rightarrow> 'hw state \<Rightarrow> int \<times> 'hw state" where
  "sensor_set_hmirror enable s =
    (if hmirror (sensor s) = (enable \<noteq> 0) then (0, s)
     else
       (let s0 = snd (sensor_abort True False s) in
        case set_hmirror (sensor s0) of
          None \<Rightarrow> (SENSOR_ERROR_CTL_UNSUPPORTED, s0)
        | Some f \<Rightarrow>
            (let (ret, s1) = call_hook ''set_hmirror'' (f enable) s0 in
             if ret \<noteq> 0 then (SENSOR_ERROR_CTL_FAILED, s1)
             else
               (let s2 = s1\<lparr>sensor := (sensor s1)\<lparr>hmirror := (enable \<noteq> 0)\<rparr>\<rparr>;
                    s3 = (if \<not> disable_delays (sensor s2)
                          then mp_hal_delay_ms 100 s2 else s2)
                in (0, s3)))))"

definition sensor_set_vflip :: "i32 \<Rightarrow> 'hw state \<Rightarrow> int \<times> 'hw state" where
  "sensor_set_vflip enable s =
    (if vflip (sensor s) = (enable \<noteq> 0) then (0, s)
     else
       (let s0 = snd (sensor_abort True False s) in
        case set_vflip (sensor s0) of
          None \<Rightarrow> (SENSOR_ERROR_CTL_UNSUPPORTED, s0)
        | Some f \<Rightarrow>
            (let (ret, s1) = call_hook ''set_vflip'' (f enable) s0 in
             if ret \<noteq> 0 then (SENSOR_ERROR_CTL_FAILED, s1)
             else
               (let s2 = s1\<lparr>sensor := (sensor s1)\<lparr>vflip := (enable \<noteq> 0)\<rparr>\<rparr>;
                    s3 = (if \<not> disable_delays (sensor s2)
                          then mp_hal_delay_ms 100 s2 else s2)
                in (0, s3)))))"

definition sensor_set_transpose :: "bool \<Rightarrow> 'hw state \<Rightarrow> int \<times> 'hw state" where
  "sensor_set_transpose enable s =
    (if transpose (sensor s) = enable then (0, s)
     else
       (let s1 = snd (sensor_abort True False s) in
        if pixformat (sensor s1) = PIXFORMAT_YUV422 \<or> pixformat (sensor s1) = PIXFORMAT_JPEG
        then (SENSOR_ERROR_PIXFORMAT_UNSUPPORTED, s1)
        else (0, s1\<lparr>sensor := (sensor s1)\<lparr>transpose := enable\<rparr>\<rparr>)))"

definition sensor_set_special_effect :: "i32 \<Rightarrow> 'hw state \<Rightarrow> int \<times> 'hw state" where
  "sensor_set_special_effect sde' s =
    (if sde (sensor s) = sde' then (0, s)
     else
       (case set_special_effect (sensor s) of
          None \<Rightarrow> (SENSOR_ERROR_CTL_UNSUPPORTED, s)
        | Some f \<Rightarrow>
            (let (ret, s1) = call_hook ''set_special_effect'' (f sde') s in
             if ret \<noteq> 0 then (SENSOR_ERROR_CTL_FAILED, s1)
             else (0, s1\<lparr>sensor := (sensor s1)\<lparr>sde := sde'\<rparr>\<rparr>))))"

definition sensor_set_lens_correction :: "i32 \<Rightarrow> i32 \<Rightarrow> i32 \<Rightarrow> 'hw state \<Rightarrow> int \<times> 'hw state" where
  "sensor_set_lens_correction enable radi coef s =
    (case set_lens_correction (sensor s) of
       None \<Rightarrow> (SENSOR_ERROR_CTL_UNSUPPORTED, s)
     | Some f \<Rightarrow>
         (let (ret, s1) = call_hook ''set_lens_correction'' (f enable radi coef) s in
          if ret \<noteq> 0 then (SENSOR_ERROR_CTL_FAILED, s1) else (0, s1)))"

text \<open>\<^verbatim>\<open>sensor_ioctl\<close>; the variable arguments are the list \<open>ap\<close>.\<close>

definition sensor_ioctl :: "i32 \<Rightarrow> i32 list \<Rightarrow> 'hw state \<Rightarrow> int \<times> 'hw state" where
  "sensor_ioctl request ap s =
    (let s0 = snd (sensor_abort True False s) in
     case ioctl (sensor s0) of
       None \<Rightarrow> (SENSOR_ERROR_CTL_UNSUPPORTED, s0)
     | Some f \<Rightarrow>
         (let (ret, s1) = call_hook ''ioctl'' (f request ap) s0 in
          (if ret \<noteq> 0 then SENSOR_ERROR_CTL_FAILED else 0, s1)))"

section \<open>Software frame-rate throttle\<close>

text \<open>
  \<^verbatim>\<open>sensor_throttle_framerate\<close>. The macro \<^verbatim>\<open>IM_DIV\<close> is not defined in this file and is a
  parameter; \<open>tick\<close> is the value that \<^verbatim>\<open>mp_hal_ticks_ms()\<close> returns.
\<close>

definition sensor_throttle_framerate ::
  "(i32 \<Rightarrow> i32 \<Rightarrow> u32) \<Rightarrow> u32 \<Rightarrow> 'hw sensor_t \<Rightarrow> 'hw sensor_t" where
  "sensor_throttle_framerate IM_DIV tick s =
    (if \<not> first_line s then
       (let s1 = s\<lparr>first_line := True\<rparr>;
            framerate_ms = IM_DIV 1000 (framerate s1)
        in if last_frame_ms_valid s1 \<and> tick - last_frame_ms s1 < framerate_ms then
             s1\<lparr>drop_frame := True\<rparr>
           else if last_frame_ms_valid s1 then
             s1\<lparr>last_frame_ms := last_frame_ms s1 + framerate_ms\<rparr>
           else
             s1\<lparr>last_frame_ms := tick, last_frame_ms_valid := True\<rparr>)
     else s)"

text \<open>
  Modelled from the spec: the capture code that clears \<^verbatim>\<open>first_line\<close> and \<^verbatim>\<open>drop_frame\<close>
  between two frames belongs to the ports and is not in this file. "The first scanline
  of a frame" is a call of the throttle with both flags clear.
\<close>

definition frame_start :: "'hw sensor_t \<Rightarrow> 'hw sensor_t" where
  "frame_start s = s\<lparr>first_line := False, drop_frame := False\<rparr>"

text \<open>
  A stream of frames: the throttle runs at the first scanline of each frame, at the
  given time; the result lists, frame by frame, whether the frame was marked dropped and
  the baseline after the call.
\<close>

fun throttle_frames ::
  "(i32 \<Rightarrow> i32 \<Rightarrow> u32) \<Rightarrow> u32 list \<Rightarrow> 'hw sensor_t \<Rightarrow> (bool \<times> u32) list" where
  "throttle_frames IM_DIV [] s = []"
| "throttle_frames IM_DIV (tick # ticks) s =
    (let s1 = sensor_throttle_framerate IM_DIV tick (frame_start s)
     in (drop_frame s1, last_frame_ms s1) # throttle_frames IM_DIV ticks s1)"

text \<open>
  The additive-baseline rule, as a relation between the sensor record before and after
  a call at time \<open>tick\<close> with inter-frame interval \<open>interval\<close>.
\<close>

definition throttle_rule :: "u32 \<Rightarrow> u32 \<Rightarrow> 'hw sensor_t \<Rightarrow> 'hw sensor_t \<Rightarrow> bool" where
  "throttle_rule interval tick s s1 =
    (if last_frame_ms_valid s \<and> tick - last_frame_ms s < interval then
       drop_frame s1 \<and> last_frame_ms s1 = last_frame_ms s \<and> last_frame_ms_valid s1
     else if last_frame_ms_valid s then
       drop_frame s1 = drop_frame s \<and> last_frame_ms s1 = last_frame_ms s + interval \<and>
       last_frame_ms_valid s1
     else
       drop_frame s1 = drop_frame s \<and> last_frame_ms s1 = tick \<and> last_frame_ms_valid s1)"

section \<open>Geometry engine\<close>

subsection \<open>Single-precision arithmetic\<close>

text \<open>
  The ratio search computes in C \<^verbatim>\<open>float\<close>. A finite \<^verbatim>\<open>float\<close> is the rational number it
  denotes, and every operation is the exact operation followed by \<open>f32\<close>, the rounding
  to the nearest number with a 24-bit significand (ties to the even significand, gradual
  underflow below \<open>2 ^ - 126\<close>), as IEEE 754 has it. The values of the search stay below
  \<open>2 ^ 39\<close>, far from overflow, and the divisor of the one division is not zero (lemma
  \<open>oversized_window_nonzero\<close>), so infinities and NaNs do not occur.
\<close>

definition pow2 :: "int \<Rightarrow> rat" where
  "pow2 e = (if 0 \<le> e then 2 ^ nat e else 1 / 2 ^ nat (- e))"

definition round_half_even :: "rat \<Rightarrow> int" where
  "round_half_even q =
    (let f = \<lfloor>q\<rfloor>; r = q - of_int f in
     if r < 1 / 2 then f else if 1 / 2 < r then f + 1 else if even f then f else f + 1)"

text \<open>The exponent of the binade of \<open>q \<noteq> 0\<close>: the largest \<open>e\<close> with \<open>2 ^ e \<le> \<bar>q\<bar>\<close>.\<close>

definition f32_exponent :: "rat \<Rightarrow> int" where
  "f32_exponent q =
    (let (n, d) = quotient_of \<bar>q\<bar>; e = bitlen n - bitlen d in
     if pow2 e \<le> \<bar>q\<bar> then e else e - 1)"

definition f32 :: "rat \<Rightarrow> c_float" where
  "f32 q =
    (if q = 0 then 0
     else
       (let e = max (f32_exponent q) (- 126) - 23;
            m = round_half_even (\<bar>q\<bar> / pow2 e)
        in sgn q * of_int m * pow2 e))"

text \<open>The largest finite \<^verbatim>\<open>float\<close>, \<^verbatim>\<open>FLT_MAX\<close> of the C library.\<close>

definition FLT_MAX :: c_float where
  "FLT_MAX = (2 ^ 24 - 1) * 2 ^ 104"

text \<open>The conversion of an \<^verbatim>\<open>int\<close> to \<^verbatim>\<open>float\<close>.\<close>

definition float_of_int :: "i32 \<Rightarrow> c_float" where
  "float_of_int n = f32 (of_int (sint n))"

text \<open>
  Modelled from the spec: \<^verbatim>\<open>fast_fabsf\<close> and \<^verbatim>\<open>fast_roundf\<close> are declared in the math
  helpers of the repository, not in this file. The spec has "approximation error" for
  the first, the distance to the rounded value, and "rounded ratio value" for the
  second: the absolute value and the rounding to the nearest \<^verbatim>\<open>int\<close>. A tie goes to the
  even integer and a value outside the range of \<^verbatim>\<open>int\<close> to the nearest end of the range,
  as the conversion instruction of the target does.
\<close>

definition fast_fabsf :: "c_float \<Rightarrow> c_float" where
  "fast_fabsf a = \<bar>a\<bar>"

definition fast_roundf :: "c_float \<Rightarrow> i32" where
  "fast_roundf a = word_of_int (max (- (2 ^ 31)) (min (2 ^ 31 - 1) (round_half_even a)))"

subsection \<open>Auto-crop\<close>

text \<open>
  The bounded search for the ratio of two small integers that approximates the aspect
  ratio: the \<^verbatim>\<open>for\<close> loop of \<^verbatim>\<open>sensor_auto_crop_framebuffer\<close>, with \<open>i\<close> the iterations
  that are left.
\<close>

fun find_ratio ::
  "nat \<Rightarrow> c_float \<Rightarrow> c_float \<Rightarrow> i32 \<Rightarrow> c_float \<Rightarrow> c_float \<Rightarrow> i32 \<Rightarrow> c_float \<times> i32" where
  "find_ratio 0 aspect_ratio r c best_err best_r best_c = (best_r, best_c)"
| "find_ratio (Suc i) aspect_ratio r c best_err best_r best_c =
    (let err = fast_fabsf (f32 (r - float_of_int (fast_roundf r)));
         (best_err1, best_r1, best_c1) =
           (if err \<le> best_err then (err, r, c) else (best_err, best_r, best_c))
     in if best_err1 \<le> f32 (1 / 100) then (best_r1, best_c1)
        else find_ratio i aspect_ratio (f32 (r + aspect_ratio)) (c + 1)
               best_err1 best_r1 best_c1)"

text \<open>
  The columns and rows to take off in one step, \<^verbatim>\<open>u_sub\<close> and \<^verbatim>\<open>v_sub\<close>, from the window
  at the start of the crop: the part of \<^verbatim>\<open>sensor_auto_crop_framebuffer\<close> from the
  computation of \<^verbatim>\<open>max\<close> and \<^verbatim>\<open>min\<close> to the selection of the larger geometry.
\<close>

definition crop_steps :: "i32 \<Rightarrow> i32 \<Rightarrow> i32 \<times> i32" where
  "crop_steps window_w window_h =
    (let max_wh = IM_MAX window_w window_h;
         min_wh = IM_MIN window_w window_h;
         aspect_ratio = f32 (float_of_int max_wh / float_of_int min_wh);
         (best_r, best_c) = find_ratio 100 aspect_ratio aspect_ratio 1 FLT_MAX aspect_ratio 1
     in if sint window_h < sint window_w
        then (fast_roundf best_r, best_c)
        else (best_c, fast_roundf best_r))"

text \<open>
  The \<^verbatim>\<open>while\<close> loop that crops. Nothing bounds the number of its iterations, so it is
  a partial function: \<open>None\<close> is a loop that does not end. The products are 32-bit and
  compared as unsigned numbers; \<^verbatim>\<open>%\<close> is the remainder of C's truncating division.
\<close>

partial_function (option) crop_loop ::
  "u32 \<Rightarrow> u32 \<Rightarrow> i32 \<Rightarrow> i32 \<Rightarrow> framebuffer_t \<Rightarrow> framebuffer_t option" where
  "crop_loop size' bpp u_sub v_sub fb =
    (if size' < u fb * v fb * bpp \<or> sint (u fb) smod 2 \<noteq> 0 \<or> sint (v fb) smod 2 \<noteq> 0
     then crop_loop size' bpp u_sub v_sub (fb\<lparr>u := u fb - u_sub, v := v fb - v_sub\<rparr>)
     else Some fb)"

declare crop_loop.simps [code]

text \<open>The division of two \<^verbatim>\<open>int\<close>s, which truncates towards zero.\<close>

definition sdiv32 :: "i32 \<Rightarrow> i32 \<Rightarrow> i32" where
  "sdiv32 a b = word_of_int (sint a sdiv sint b)"

definition sensor_auto_crop_framebuffer ::
  "'hw board \<Rightarrow> 'hw state \<Rightarrow> (int \<times> 'hw state) option" where
  "sensor_auto_crop_framebuffer board s =
    (let bpp = sensor_get_dst_bpp s;
         size = framebuffer_get_buffer_size board
     in if bpp = 0 then Some (0, s)
        else if u (MAIN_FB s) * v (MAIN_FB s) * bpp \<le> size then Some (0, s)
        else
          (let color = (pixformat (sensor s) = PIXFORMAT_RGB565 \<or>
                        pixformat (sensor s) = PIXFORMAT_YUV422);
               s1 = (if color then snd (sensor_set_pixformat board PIXFORMAT_BAYER s) else s);
               bpp1 = (if color then 1 else bpp)
           in if color \<and> u (MAIN_FB s1) * v (MAIN_FB s1) \<le> size then Some (0, s1)
              else
                (let window_w = u (MAIN_FB s1);
                     window_h = v (MAIN_FB s1);
                     (u_sub, v_sub) = crop_steps window_w window_h
                 in case crop_loop size bpp1 u_sub v_sub (MAIN_FB s1) of
                      None \<Rightarrow> None
                    | Some fb \<Rightarrow>
                        (let fb1 = fb\<lparr>x := x fb + sdiv32 (window_w - u fb) 2,
                                      y := y fb + sdiv32 (window_h - v fb) 2\<rparr>;
                             fb2 = (if sint (x fb1) smod 2 \<noteq> 0
                                    then fb1\<lparr>x := x fb1 - 1\<rparr> else fb1);
                             fb3 = (if sint (y fb2) smod 2 \<noteq> 0
                                    then fb2\<lparr>y := y fb2 - 1\<rparr> else fb2);
                             s2 = s1\<lparr>MAIN_FB := fb3\<rparr>;
                             s3 = snd (sensor_set_framebuffers board (- 1) s2)
                         in Some (0, s3)))))"

text \<open>The frame geometry: origin, active and backup width and height.\<close>

definition geometry :: "framebuffer_t \<Rightarrow> i32 \<times> i32 \<times> i32 \<times> i32 \<times> i32 \<times> i32" where
  "geometry fb = (x fb, y fb, w fb, h fb, u fb, v fb)"

section \<open>Line pipeline\<close>

text \<open>
  Memory holds the bytes of the objects that the pointers of a line copy may access: a
  partial map from 32-bit addresses to bytes. An access to an address outside of it is
  undefined in C and is the result \<open>OutOfBounds\<close> here. The decrement of an \<^verbatim>\<open>int\<close> that
  holds \<^verbatim>\<open>INT_MIN\<close> is undefined as well: \<open>SignedOverflow\<close>.
\<close>

datatype fault = OutOfBounds u32 | SignedOverflow

type_synonym memory = "u32 \<Rightarrow> 8 word option"

text \<open>The element types of the line pointers, \<^verbatim>\<open>uint8_t\<close> and \<^verbatim>\<open>uint16_t\<close>.\<close>

datatype elem_t = UINT8 | UINT16

fun sizeof :: "elem_t \<Rightarrow> nat" where
  "sizeof UINT8 = 1"
| "sizeof UINT16 = 2"

definition load_byte :: "memory \<Rightarrow> u32 \<Rightarrow> fault + 8 word" where
  "load_byte m a = (case m a of None \<Rightarrow> Inl (OutOfBounds a) | Some b \<Rightarrow> Inr b)"

definition store_byte :: "memory \<Rightarrow> u32 \<Rightarrow> 8 word \<Rightarrow> fault + memory" where
  "store_byte m a b = (case m a of None \<Rightarrow> Inl (OutOfBounds a) | Some b0 \<Rightarrow> Inr (m(a \<mapsto> b)))"

text \<open>
  A line element is read and written with the type of its pointer, little-endian for
  \<^verbatim>\<open>uint16_t\<close>; writing a 16-bit value through a \<^verbatim>\<open>uint8_t\<close> pointer keeps its low byte, as
  the assignment of a \<^verbatim>\<open>uint16_t\<close> to a \<^verbatim>\<open>uint8_t\<close> does.
\<close>

fun load_elem :: "elem_t \<Rightarrow> memory \<Rightarrow> u32 \<Rightarrow> fault + 16 word" where
  "load_elem UINT8 m a =
    (case load_byte m a of Inl e \<Rightarrow> Inl e | Inr b \<Rightarrow> Inr (ucast b))"
| "load_elem UINT16 m a =
    (case load_byte m a of
       Inl e \<Rightarrow> Inl e
     | Inr lo \<Rightarrow>
         (case load_byte m (a + 1) of
            Inl e \<Rightarrow> Inl e
          | Inr hi \<Rightarrow> Inr (word_cat hi lo)))"

fun store_elem :: "elem_t \<Rightarrow> memory \<Rightarrow> u32 \<Rightarrow> 16 word \<Rightarrow> fault + memory" where
  "store_elem UINT8 m a val = store_byte m a (ucast val)"
| "store_elem UINT16 m a val =
    (case store_byte m a (ucast val) of
       Inl e \<Rightarrow> Inl e
     | Inr m1 \<Rightarrow> store_byte m1 (a + 1) (ucast (drop_bit 8 val)))"

text \<open>
  Modelled from the spec: the intrinsic \<^verbatim>\<open>__REV16\<close> is not defined in this file; the spec
  has "each element is byte-swapped during the copy".
\<close>

definition REV16 :: "16 word \<Rightarrow> 16 word" where
  "REV16 val = word_cat (ucast val :: 8 word) (ucast (drop_bit 8 val) :: 8 word)"

text \<open>
  The loop of the macros \<^verbatim>\<open>copy_transposed_line\<close> and \<^verbatim>\<open>copy_transposed_line_rev16\<close>,
  which differ in the function \<open>f\<close> that is applied to the element (nothing, or the byte
  swap). \<open>dst_t\<close> and \<open>src_t\<close> are the element types of the two pointers, \<open>i\<close> the loop
  counter, an \<^verbatim>\<open>int\<close> that starts at the window width and is decremented until it is
  zero, \<open>h'\<close> the window height; the destination advances by \<open>h'\<close> elements in each step,
  the source by one.
\<close>

function transposed_loop ::
  "(16 word \<Rightarrow> 16 word) \<Rightarrow> elem_t \<Rightarrow> elem_t \<Rightarrow> i32 \<Rightarrow> i32 \<Rightarrow> u32 \<Rightarrow> u32 \<Rightarrow> memory
     \<Rightarrow> fault + memory" where
  "transposed_loop f dst_t src_t i h' dstp srcp m =
    (if i = 0 then Inr m
     else
       (case load_elem src_t m srcp of
          Inl e \<Rightarrow> Inl e
        | Inr val \<Rightarrow>
            (case store_elem dst_t m dstp (f val) of
               Inl e \<Rightarrow> Inl e
             | Inr m1 \<Rightarrow>
                 if i = - (2 ^ 31) then Inl SignedOverflow
                 else transposed_loop f dst_t src_t (i - 1) h'
                        (dstp + h' * of_nat (sizeof dst_t)) (srcp + of_nat (sizeof src_t)) m1)))"
  by pat_completeness auto
termination
  by (relation "measure (\<lambda>(f, dst_t, src_t, i, h', dstp, srcp, m). unat i)")
     (auto simp: unat_minus_one unat_gt_0)

definition copy_transposed_line ::
  "elem_t \<Rightarrow> elem_t \<Rightarrow> i32 \<Rightarrow> i32 \<Rightarrow> u32 \<Rightarrow> u32 \<Rightarrow> memory \<Rightarrow> fault + memory" where
  "copy_transposed_line = transposed_loop (\<lambda>val. val)"

definition copy_transposed_line_rev16 ::
  "elem_t \<Rightarrow> elem_t \<Rightarrow> i32 \<Rightarrow> i32 \<Rightarrow> u32 \<Rightarrow> u32 \<Rightarrow> memory \<Rightarrow> fault + memory" where
  "copy_transposed_line_rev16 = transposed_loop REV16"

text \<open>
  Modelled from the spec: the copy routines \<^verbatim>\<open>unaligned_memcpy\<close>,
  \<^verbatim>\<open>unaligned_2_to_1_memcpy\<close> and \<^verbatim>\<open>unaligned_memcpy_rev16\<close> are declared in
  \<^verbatim>\<open>unaligned_memcpy.h\<close>, which is not in this file. The spec has, for the three: a
  "straight byte copy" of the given number of bytes; "copy every other byte (the luma
  channel) rather than every byte" of the given number of 2-byte elements; and a
  2-byte copy in which "each element is byte-swapped during the copy". Each is a copy
  of \<open>n\<close> elements, front to back; the count is a \<^verbatim>\<open>size_t\<close>.
\<close>

fun copy_elems ::
  "(16 word \<Rightarrow> 16 word) \<Rightarrow> elem_t \<Rightarrow> elem_t \<Rightarrow> nat \<Rightarrow> u32 \<Rightarrow> u32 \<Rightarrow> memory \<Rightarrow> fault + memory" where
  "copy_elems f dst_t src_t 0 dstp srcp m = Inr m"
| "copy_elems f dst_t src_t (Suc n) dstp srcp m =
    (case load_elem src_t m srcp of
       Inl e \<Rightarrow> Inl e
     | Inr val \<Rightarrow>
         (case store_elem dst_t m dstp (f val) of
            Inl e \<Rightarrow> Inl e
          | Inr m1 \<Rightarrow>
              copy_elems f dst_t src_t n (dstp + of_nat (sizeof dst_t))
                (srcp + of_nat (sizeof src_t)) m1))"

definition unaligned_memcpy :: "u32 \<Rightarrow> u32 \<Rightarrow> u32 \<Rightarrow> memory \<Rightarrow> fault + memory" where
  "unaligned_memcpy dest src n = copy_elems (\<lambda>val. val) UINT8 UINT8 (unat n) dest src"

definition unaligned_2_to_1_memcpy :: "u32 \<Rightarrow> u32 \<Rightarrow> u32 \<Rightarrow> memory \<Rightarrow> fault + memory" where
  "unaligned_2_to_1_memcpy dest src n = copy_elems (\<lambda>val. val) UINT8 UINT16 (unat n) dest src"

definition unaligned_memcpy_rev16 :: "u32 \<Rightarrow> u32 \<Rightarrow> u32 \<Rightarrow> memory \<Rightarrow> fault + memory" where
  "unaligned_memcpy_rev16 dest src n = copy_elems REV16 UINT16 UINT16 (unat n) dest src"

text \<open>
  What \<^verbatim>\<open>sensor_copy_line\<close> takes from the port: the two compile-time switches and the
  hardware-offload copy, which returns 0 when it has taken the request.
\<close>

record line_ops =
  OMV_CSI_DMA_MEMCPY_ENABLE :: bool
  OMV_CSI_HW_SWAP_ENABLE :: bool
  sensor_dma_memcpy :: "u32 \<Rightarrow> u32 \<Rightarrow> u32 \<Rightarrow> nat \<Rightarrow> bool \<Rightarrow> memory \<Rightarrow> int \<times> memory"

text \<open>
  The hardware-offload attempt in front of each case: without the switch there is none,
  and the software copy runs; with it, the software copy runs only when the offload
  does not return 0.
\<close>

definition try_dma ::
  "line_ops \<Rightarrow> u32 \<Rightarrow> u32 \<Rightarrow> u32 \<Rightarrow> nat \<Rightarrow> bool \<Rightarrow> memory \<Rightarrow> bool \<times> memory" where
  "try_dma ops dma dst src bpp transposed m =
    (if OMV_CSI_DMA_MEMCPY_ENABLE ops then
       (let (ret, m1) = sensor_dma_memcpy ops dma dst src bpp transposed m in (ret = 0, m1))
     else (False, m))"

text \<open>The end of a case: \<^verbatim>\<open>break\<close>, then \<^verbatim>\<open>return 0\<close>, unless the copy has faulted.\<close>

definition return_0 :: "fault + memory \<Rightarrow> fault + int \<times> memory" where
  "return_0 r = (case r of Inl e \<Rightarrow> Inl e | Inr m \<Rightarrow> Inr (0, m))"

definition sensor_copy_line ::
  "line_ops \<Rightarrow> u32 \<Rightarrow> u32 \<Rightarrow> u32 \<Rightarrow> 'hw state \<Rightarrow> memory \<Rightarrow> fault + int \<times> memory" where
  "sensor_copy_line ops dma src dst s m =
    (let fb_u = u (MAIN_FB s); fb_v = v (MAIN_FB s); tr = transpose (sensor s) in
     case pixformat (sensor s) of
       PIXFORMAT_BAYER \<Rightarrow>
         (let (taken, m1) = try_dma ops dma dst src 1 tr m in
          if taken then Inr (0, m1)
          else if \<not> tr then return_0 (unaligned_memcpy dst src fb_u m1)
          else return_0 (copy_transposed_line UINT8 UINT8 fb_u fb_v dst src m1))
     | PIXFORMAT_GRAYSCALE \<Rightarrow>
         (let (taken, m1) = try_dma ops dma dst src 1 tr m in
          if taken then Inr (0, m1)
          else if mono_bpp (sensor s) = 1 then
            (if \<not> tr then return_0 (unaligned_memcpy dst src fb_u m1)
             else return_0 (copy_transposed_line UINT8 UINT8 fb_u fb_v dst src m1))
          else
            (if \<not> tr then return_0 (unaligned_2_to_1_memcpy dst src fb_u m1)
             else return_0 (copy_transposed_line UINT8 UINT16 fb_u fb_v dst src m1)))
     | PIXFORMAT_RGB565 \<Rightarrow>
         (let (taken, m1) = try_dma ops dma dst src 2 tr m in
          if taken then Inr (0, m1)
          else if \<not> OMV_CSI_HW_SWAP_ENABLE ops \<and> rgb_swap (sensor s) then
            (if \<not> tr then return_0 (unaligned_memcpy_rev16 dst src fb_u m1)
             else return_0 (copy_transposed_line_rev16 UINT16 UINT16 fb_u fb_v dst src m1))
          else
            (if \<not> tr then return_0 (unaligned_memcpy dst src (fb_u * 2) m1)
             else return_0 (copy_transposed_line UINT16 UINT16 fb_u fb_v dst src m1)))
     | PIXFORMAT_YUV422 \<Rightarrow>
         (let (taken, m1) = try_dma ops dma dst src 2 tr m in
          if taken then Inr (0, m1)
          else if \<not> OMV_CSI_HW_SWAP_ENABLE ops \<and> yuv_swap (sensor s) then
            (if \<not> tr then return_0 (unaligned_memcpy_rev16 dst src fb_u m1)
             else return_0 (copy_transposed_line_rev16 UINT16 UINT16 fb_u fb_v dst src m1))
          else
            (if \<not> tr then return_0 (unaligned_memcpy dst src (fb_u * 2) m1)
             else return_0 (copy_transposed_line UINT16 UINT16 fb_u fb_v dst src m1)))
     | _ \<Rightarrow> Inr (0, m))"

text \<open>
  What the spec calls a window that is consistent with the buffers, for the software
  copy of one line. \<open>cells m a stride t n\<close>: the \<open>n\<close> elements of type \<open>t\<close> at the
  addresses \<open>a\<close>, \<open>a + stride\<close>, \<open>a + 2 * stride\<close>, ... are in memory. A straight copy of
  \<open>n\<close> elements reads and writes consecutive elements; a transposed copy of a line of
  non-negative width reads consecutive elements and writes one element every \<open>h'\<close>
  elements.
\<close>

definition mapped :: "memory \<Rightarrow> u32 \<Rightarrow> nat \<Rightarrow> bool" where
  "mapped m a n = list_all (\<lambda>k. m (a + of_nat k) \<noteq> None) [0..<n]"

definition cells :: "memory \<Rightarrow> u32 \<Rightarrow> u32 \<Rightarrow> elem_t \<Rightarrow> nat \<Rightarrow> bool" where
  "cells m a stride t n = list_all (\<lambda>k. mapped m (a + of_nat k * stride) (sizeof t)) [0..<n]"

definition straight_in_bounds :: "elem_t \<Rightarrow> elem_t \<Rightarrow> u32 \<Rightarrow> u32 \<Rightarrow> u32 \<Rightarrow> memory \<Rightarrow> bool" where
  "straight_in_bounds dst_t src_t n dstp srcp m =
    (cells m srcp (of_nat (sizeof src_t)) src_t (unat n) \<and>
     cells m dstp (of_nat (sizeof dst_t)) dst_t (unat n))"

definition transposed_in_bounds ::
  "elem_t \<Rightarrow> elem_t \<Rightarrow> i32 \<Rightarrow> i32 \<Rightarrow> u32 \<Rightarrow> u32 \<Rightarrow> memory \<Rightarrow> bool" where
  "transposed_in_bounds dst_t src_t width h' dstp srcp m =
    (0 \<le> sint width \<and>
     cells m srcp (of_nat (sizeof src_t)) src_t (unat width) \<and>
     cells m dstp (h' * of_nat (sizeof dst_t)) dst_t (unat width))"

text \<open>
  The software copy that \<^verbatim>\<open>sensor_copy_line\<close> runs for the state, if any, is in bounds:
  the same case distinction as the function's, on the memory that the offload attempt
  leaves.
\<close>

definition line_in_bounds :: "line_ops \<Rightarrow> u32 \<Rightarrow> u32 \<Rightarrow> u32 \<Rightarrow> 'hw state \<Rightarrow> memory \<Rightarrow> bool" where
  "line_in_bounds ops dma src dst s m =
    (let fb_u = u (MAIN_FB s); fb_v = v (MAIN_FB s); tr = transpose (sensor s) in
     case pixformat (sensor s) of
       PIXFORMAT_BAYER \<Rightarrow>
         (let (taken, m1) = try_dma ops dma dst src 1 tr m in
          if taken then True
          else if \<not> tr then straight_in_bounds UINT8 UINT8 fb_u dst src m1
          else transposed_in_bounds UINT8 UINT8 fb_u fb_v dst src m1)
     | PIXFORMAT_GRAYSCALE \<Rightarrow>
         (let (taken, m1) = try_dma ops dma dst src 1 tr m in
          if taken then True
          else if mono_bpp (sensor s) = 1 then
            (if \<not> tr then straight_in_bounds UINT8 UINT8 fb_u dst src m1
             else transposed_in_bounds UINT8 UINT8 fb_u fb_v dst src m1)
          else
            (if \<not> tr then straight_in_bounds UINT8 UINT16 fb_u dst src m1
             else transposed_in_bounds UINT8 UINT16 fb_u fb_v dst src m1))
     | PIXFORMAT_RGB565 \<Rightarrow>
         (let (taken, m1) = try_dma ops dma dst src 2 tr m in
          if taken then True
          else if \<not> OMV_CSI_HW_SWAP_ENABLE ops \<and> rgb_swap (sensor s) then
            (if \<not> tr then straight_in_bounds UINT16 UINT16 fb_u dst src m1
             else transposed_in_bounds UINT16 UINT16 fb_u fb_v dst src m1)
          else
            (if \<not> tr then straight_in_bounds UINT8 UINT8 (fb_u * 2) dst src m1
             else transposed_in_bounds UINT16 UINT16 fb_u fb_v dst src m1))
     | PIXFORMAT_YUV422 \<Rightarrow>
         (let (taken, m1) = try_dma ops dma dst src 2 tr m in
          if taken then True
          else if \<not> OMV_CSI_HW_SWAP_ENABLE ops \<and> yuv_swap (sensor s) then
            (if \<not> tr then straight_in_bounds UINT16 UINT16 fb_u dst src m1
             else transposed_in_bounds UINT16 UINT16 fb_u fb_v dst src m1)
          else
            (if \<not> tr then straight_in_bounds UINT8 UINT8 (fb_u * 2) dst src m1
             else transposed_in_bounds UINT16 UINT16 fb_u fb_v dst src m1))
     | _ \<Rightarrow> True)"

section \<open>Statements and example configurations\<close>

text \<open>
  A setter that finds its capability slot absent: it returns "control unsupported",
  the sensor record, the geometry record and the hardware are as before, and the trace
  has no new call of a driver hook.
\<close>

definition refused_unsupported :: "'hw state \<Rightarrow> int \<times> 'hw state \<Rightarrow> bool" where
  "refused_unsupported s res =
    (fst res = SENSOR_ERROR_CTL_UNSUPPORTED \<and> sensor (snd res) = sensor s \<and>
     MAIN_FB (snd res) = MAIN_FB s \<and> hw (snd res) = hw s \<and>
     hook_calls (trace (snd res)) = hook_calls (trace s))"

text \<open>
  Concrete configurations for the runs below: a sensor record with every capability
  slot absent, a state with a given pixel format and window on a VGA frame, a board with
  a given buffer capacity whose buffer requests succeed, and the division that gives 0
  for a zero divisor as an instance of \<^verbatim>\<open>IM_DIV\<close>.
\<close>

definition no_hooks :: "unit sensor_t" where
  "no_hooks =
    \<lparr>pixformat = PIXFORMAT_INVALID, framesize = FRAMESIZE_INVALID, framerate = 0,
     first_line = False, drop_frame = False, last_frame_ms = 0, last_frame_ms_valid = False,
     gainceiling = 0, sde = 0, hmirror = False, vflip = False, transpose = False,
     auto_rotation = False, disable_delays = False, raw_output = False, mono_bpp = 1,
     rgb_swap = False, yuv_swap = False,
     read_reg = None, write_reg = None, set_pixformat = None, set_framesize = None,
     set_contrast = None, set_brightness = None, set_saturation = None,
     set_gainceiling = None, set_quality = None, set_colorbar = None, set_auto_gain = None,
     set_auto_exposure = None, set_auto_whitebal = None, set_auto_blc = None,
     set_hmirror = None, set_vflip = None, set_special_effect = None,
     set_lens_correction = None, ioctl = None\<rparr>"

definition example_state :: "pixformat_t \<Rightarrow> i32 \<Rightarrow> i32 \<Rightarrow> unit state" where
  "example_state p w' h' =
    \<lparr>sensor = no_hooks\<lparr>pixformat := p, framesize := FRAMESIZE_VGA\<rparr>,
     MAIN_FB = \<lparr>x = 0, y = 0, w = w', h = h', u = w', v = h', pixfmt = PIXFORMAT_INVALID,
                frame_size = 0\<rparr>,
     hw = (), trace = []\<rparr>"

definition example_board :: "u32 \<Rightarrow> unit board" where
  "example_board size' =
    \<lparr>framebuffer_get_buffer_size = size', OMV_CSI_HW_CROP_ENABLE = True,
     framebuffer_set_buffers = (\<lambda>count hw0. (0, hw0))\<rparr>"

definition guarded_div :: "i32 \<Rightarrow> i32 \<Rightarrow> u32" where
  "guarded_div a b = (if b = 0 then 0 else word_of_int (sint a sdiv sint b))"

text \<open>
  The states that the file can produce, as far as the pixel format and the transpose
  flag go. The file writes the two fields in five places: \<^verbatim>\<open>sensor_init0\<close> and
  \<^verbatim>\<open>sensor_init\<close> clear the whole record, \<^verbatim>\<open>sensor_reset\<close> sets the format to 0 (the
  invalid format) and the flag to false, \<^verbatim>\<open>sensor_set_pixformat\<close> writes the format and
  \<^verbatim>\<open>sensor_set_transpose\<close> the flag. Every other function leaves both as they are.
\<close>

inductive reachable :: "'hw state \<Rightarrow> bool" where
  after_reset:
    "pixformat (sensor s) = PIXFORMAT_INVALID \<Longrightarrow> \<not> transpose (sensor s) \<Longrightarrow> reachable s"
| after_set_pixformat:
    "reachable s \<Longrightarrow> reachable (snd (sensor_set_pixformat board p s))"
| after_set_transpose:
    "reachable s \<Longrightarrow> reachable (snd (sensor_set_transpose enable s))"
| after_other:
    "reachable s \<Longrightarrow> pixformat (sensor s1) = pixformat (sensor s) \<Longrightarrow>
     transpose (sensor s1) = transpose (sensor s) \<Longrightarrow> reachable s1"

text \<open>
  A sensor whose driver accepts every pixel format, after reset, and the state that
  selecting the compressed format leaves.
\<close>

definition after_reset_state :: "unit state" where
  "after_reset_state =
    (example_state PIXFORMAT_INVALID 640 480)
      \<lparr>sensor := no_hooks\<lparr>framesize := FRAMESIZE_VGA,
                         set_pixformat := Some (\<lambda>p hw0. (0, hw0))\<rparr>\<rparr>"

definition jpeg_state :: "unit state" where
  "jpeg_state = snd (sensor_set_pixformat (example_board 400000) PIXFORMAT_JPEG after_reset_state)"

text \<open>
  For the line copy: a memory that holds the 256 bytes from the address 4096 on, a port
  without hardware offload and without hardware byte swap, and a state with a given
  format, window and transpose flag.
\<close>

definition example_memory :: memory where
  "example_memory a = (if 4096 \<le> a \<and> a < 4352 then Some 0 else None)"

definition software_copy :: line_ops where
  "software_copy =
    \<lparr>OMV_CSI_DMA_MEMCPY_ENABLE = False, OMV_CSI_HW_SWAP_ENABLE = False,
     sensor_dma_memcpy = (\<lambda>dma dst src bpp transposed m. (1, m))\<rparr>"

definition line_state :: "pixformat_t \<Rightarrow> i32 \<Rightarrow> i32 \<Rightarrow> bool \<Rightarrow> unit state" where
  "line_state p w' h' tr =
    (example_state p w' h')\<lparr>sensor := no_hooks\<lparr>pixformat := p, transpose := tr\<rparr>\<rparr>"

section \<open>Error descriptions\<close>

lemma length_sensor_errors: "length sensor_errors = 21"
  by (simp add: sensor_errors_def)

text \<open>
  What \<^verbatim>\<open>sensor_strerror\<close> does on every input but \<^verbatim>\<open>INT_MIN\<close>, by the magnitude \<open>m\<close> it
  computes: above 21 the generic description, below 21 the table entry, and at 21 a
  read behind the last entry of the table.
\<close>

lemma sensor_strerror_cases:
  assumes "e \<noteq> - (2 ^ 31)"
  shows "sensor_strerror e =
    (let m = (if sint e < 0 then e * (- 1) else e) in
     if 21 < m then Some ''Unknown error.''
     else if m = 21 then None
     else Some (sensor_errors ! unat m))"
proof -
  define m where "m = (if sint e < 0 then e * (- 1) else e)"
  have a: "unat m < 21 \<longleftrightarrow> m < 21"
    by (simp add: word_less_nat_alt)
  have b: "\<not> 21 < m \<Longrightarrow> \<not> m < 21 \<Longrightarrow> m = 21"
    by (simp add: not_less order.antisym)
  have c: "m = 21 \<Longrightarrow> \<not> m < 21"
    by simp
  show ?thesis
    unfolding sensor_strerror_def Let_def length_sensor_errors m_def [symmetric]
    using a b c assms by auto
qed

text \<open>
  Claim C2: for every integer input \<^verbatim>\<open>sensor_strerror\<close> returns a description without
  reading outside the error table, the generic one for every input whose magnitude is
  not a catalogued code. The code does not do this for the inputs 21 and -21: the
  bound check lets the index 21 through, and the table has the entries 0 to 20.
\<close>

theorem sensor_strerror_reads_behind_table:
  "sensor_strerror 21 = None \<and> sensor_strerror (- 21) = None \<and>
   sensor_strerror 22 = Some ''Unknown error.'' \<and>
   sensor_strerror (- 20) = Some ''JPEG frame buffer overflow.''"
  by (simp add: sensor_strerror_def sensor_errors_def)

section \<open>No-op setters\<close>

text \<open>
  Claim C4: \<^verbatim>\<open>sensor_set_pixformat\<close> with the active pixel format and
  \<^verbatim>\<open>sensor_set_framesize\<close> with the active frame size return 0 and leave the whole state
  as it is: sensor record, frame geometry, hardware and trace, so no driver hook has
  run.
\<close>

theorem set_current_value_is_noop:
  "sensor_set_pixformat board (pixformat (sensor s)) s = (0, s) \<and>
   sensor_set_framesize board (framesize (sensor s)) s = (0, s)"
  by (simp add: sensor_set_pixformat_def sensor_set_framesize_def)

theorem set_current_value_is_noop_witness:
  "sensor_set_pixformat (example_board 1000) PIXFORMAT_RGB565
     (example_state PIXFORMAT_RGB565 640 480) = (0, example_state PIXFORMAT_RGB565 640 480) \<and>
   sensor_set_framesize (example_board 1000) FRAMESIZE_VGA
     (example_state PIXFORMAT_RGB565 640 480) = (0, example_state PIXFORMAT_RGB565 640 480)"
proof -
  have "pixformat (sensor (example_state PIXFORMAT_RGB565 640 480)) = PIXFORMAT_RGB565"
    and "framesize (sensor (example_state PIXFORMAT_RGB565 640 480)) = FRAMESIZE_VGA"
    by (simp_all add: example_state_def)
  with set_current_value_is_noop
         [of "example_board 1000" "example_state PIXFORMAT_RGB565 640 480"]
  show ?thesis by simp
qed

section \<open>Auto-crop\<close>

lemma smod_2_int: "(k :: int) smod 2 \<noteq> 0 \<longleftrightarrow> odd k"
  unfolding signed_modulo_int_def
  by (cases "k < 0"; cases "k = 0"; simp add: sgn_if abs_if odd_iff_mod_2_eq_one; presburger)

lemma even_sint_word: "even (sint (a :: 32 word)) \<longleftrightarrow> even a"
  using bit_sint_iff [of a 0] by (simp add: bit_0)

lemma smod_2_word: "sint (a :: 32 word) smod 2 \<noteq> 0 \<longleftrightarrow> odd a"
  by (simp only: smod_2_int even_sint_word)

text \<open>
  The division of the ratio search never divides by zero: a window with a zero side
  has the product 0 and fits, so the search is not reached.
\<close>

lemma oversized_window_nonzero:
  "\<not> a * b * bpp \<le> (cap :: u32) \<Longrightarrow> IM_MIN a b \<noteq> 0"
  by (auto simp: IM_MIN_def)

text \<open>
  A crop loop that returns started from an even width or takes an odd number of
  columns off: an odd width stays odd under even steps, and the loop goes on while the
  width is odd.
\<close>

lemma crop_loop_Some_parity:
  "crop_loop size' bpp u_sub v_sub fb = Some r \<Longrightarrow> even (u fb) \<or> odd u_sub"
proof (erule crop_loop.raw_induct
    [rotated, where P = "\<lambda>size' bpp u_sub v_sub fb r. even (u fb) \<or> odd u_sub"])
  fix f size' bpp u_sub v_sub fb r
  assume IH: "\<And>size' bpp u_sub v_sub fb r.
      f size' bpp u_sub v_sub fb = Some r \<Longrightarrow> even (u fb) \<or> odd u_sub"
    and step: "(if size' < u fb * v fb * bpp \<or> sint (u fb) smod 2 \<noteq> 0 \<or> sint (v fb) smod 2 \<noteq> 0
      then f size' bpp u_sub v_sub (fb\<lparr>u := u fb - u_sub, v := v fb - v_sub\<rparr>)
      else Some fb) = Some r"
  show "even (u fb) \<or> odd u_sub"
  proof (rule ccontr)
    assume "\<not> (even (u fb) \<or> odd u_sub)"
    then have parity: "odd (u fb)" "even u_sub"
      by auto
    then have "f size' bpp u_sub v_sub (fb\<lparr>u := u fb - u_sub, v := v fb - v_sub\<rparr>) = Some r"
      using step by (simp add: smod_2_word)
    from IH [OF this] have "even (u fb - u_sub) \<or> odd u_sub"
      by simp
    with parity show False
      by simp
  qed
qed

lemma crop_loop_odd_width_diverges:
  "odd (u fb) \<Longrightarrow> even u_sub \<Longrightarrow> crop_loop size' bpp u_sub v_sub fb = None"
  using crop_loop_Some_parity [of size' bpp u_sub v_sub fb]
  by (cases "crop_loop size' bpp u_sub v_sub fb") auto

text \<open>
  Claim C1: for every starting window, pixel format and buffer capacity,
  \<^verbatim>\<open>sensor_auto_crop_framebuffer\<close> terminates, with an even, fitting window that is not
  larger than the starting one and has no negative dimension or origin. The code does
  not: for a 401 by 200 window of 1-byte pixels and a buffer of 65536 bytes the ratio
  search gives the steps 2 and 1, the width stays odd, and the crop loop never ends.
\<close>

theorem auto_crop_does_not_return:
  "sensor_auto_crop_framebuffer (example_board 65536) (example_state PIXFORMAT_BAYER 401 200)
     = None"
proof -
  let ?s = "example_state PIXFORMAT_BAYER 401 200"
  have steps: "crop_steps 401 200 = (2, 1)"
    by code_simp
  have win: "u (MAIN_FB ?s) = 401" "v (MAIN_FB ?s) = 200"
    and fmt: "pixformat (sensor ?s) = PIXFORMAT_BAYER"
    by (simp_all add: example_state_def)
  have loop: "crop_loop 65536 1 2 1 (MAIN_FB ?s) = None"
    by (rule crop_loop_odd_width_diverges) (simp_all add: win)
  show ?thesis
    by (simp add: sensor_auto_crop_framebuffer_def Let_def win fmt steps loop
        sensor_get_dst_bpp_def example_board_def)
qed

text \<open>
  Where the loop does end it can end below zero: a 400 by 601 window and a buffer of
  5 bytes give the steps 2 and 3 and the window -2 by -2, whose 32-bit product 4 fits.
\<close>

lemma auto_crop_negative_window:
  "map_option (\<lambda>(r, s). (sint (u (MAIN_FB s)), sint (v (MAIN_FB s))))
     (sensor_auto_crop_framebuffer (example_board 5) (example_state PIXFORMAT_BAYER 400 601))
   = Some (- 2, - 2)"
  by code_simp

text \<open>
  A crop loop that returns leaves a window that fits and has even sides; it changes
  nothing but the backup width and height.
\<close>

lemma crop_loop_result:
  "crop_loop size' bpp u_sub v_sub fb = Some r \<Longrightarrow>
     u r * v r * bpp \<le> size' \<and> even (u r) \<and> even (v r) \<and>
     x r = x fb \<and> y r = y fb \<and> w r = w fb \<and> h r = h fb"
proof (erule crop_loop.raw_induct
    [rotated, where P = "\<lambda>size' bpp u_sub v_sub fb r.
       u r * v r * bpp \<le> size' \<and> even (u r) \<and> even (v r) \<and>
       x r = x fb \<and> y r = y fb \<and> w r = w fb \<and> h r = h fb"])
  fix f size' bpp u_sub v_sub fb r
  assume IH: "\<And>size' bpp u_sub v_sub fb r.
      f size' bpp u_sub v_sub fb = Some r \<Longrightarrow>
      u r * v r * bpp \<le> size' \<and> even (u r) \<and> even (v r) \<and>
      x r = x fb \<and> y r = y fb \<and> w r = w fb \<and> h r = h fb"
    and step: "(if size' < u fb * v fb * bpp \<or> sint (u fb) smod 2 \<noteq> 0 \<or> sint (v fb) smod 2 \<noteq> 0
      then f size' bpp u_sub v_sub (fb\<lparr>u := u fb - u_sub, v := v fb - v_sub\<rparr>)
      else Some fb) = Some r"
  show "u r * v r * bpp \<le> size' \<and> even (u r) \<and> even (v r) \<and>
      x r = x fb \<and> y r = y fb \<and> w r = w fb \<and> h r = h fb"
  proof (cases "size' < u fb * v fb * bpp \<or> sint (u fb) smod 2 \<noteq> 0 \<or> sint (v fb) smod 2 \<noteq> 0")
    case True
    with step have "f size' bpp u_sub v_sub (fb\<lparr>u := u fb - u_sub, v := v fb - v_sub\<rparr>) = Some r"
      by simp
    from IH [OF this] show ?thesis
      by simp
  next
    case False
    with step have "r = fb"
      by simp
    with False show ?thesis
      by (simp add: smod_2_word not_less)
  qed
qed

subsection \<open>What the collaborators leave alone\<close>

lemma call_hook_frame:
  "sensor (snd (call_hook name f s)) = sensor s \<and>
   MAIN_FB (snd (call_hook name f s)) = MAIN_FB s"
  by (simp add: call_hook_def case_prod_beta)

lemma sensor_abort_frame:
  "sensor (snd (sensor_abort a b s)) = sensor s \<and>
   MAIN_FB (snd (sensor_abort a b s)) = MAIN_FB s"
  by (simp add: sensor_abort_def)

lemma update_jpeg_buffer_frame:
  "sensor (framebuffer_update_jpeg_buffer s) = sensor s \<and>
   MAIN_FB (framebuffer_update_jpeg_buffer s) = MAIN_FB s"
  by (simp add: framebuffer_update_jpeg_buffer_def)

lemma delay_frame:
  "sensor (mp_hal_delay_ms n s) = sensor s \<and> MAIN_FB (mp_hal_delay_ms n s) = MAIN_FB s"
  by (simp add: mp_hal_delay_ms_def)

lemma sensor_config_frame:
  "sensor (snd (sensor_config c s)) = sensor s \<and> MAIN_FB (snd (sensor_config c s)) = MAIN_FB s"
  by (simp add: sensor_config_def)

lemma set_framebuffers_frame:
  "sensor (snd (sensor_set_framebuffers board c s)) = sensor s \<and>
   geometry (MAIN_FB (snd (sensor_set_framebuffers board c s))) = geometry (MAIN_FB s)"
  by (simp add: sensor_set_framebuffers_def sensor_abort_def framebuffer_update_jpeg_buffer_def
      geometry_def Let_def split: prod.splits)

lemma set_pixformat_geometry:
  "geometry (MAIN_FB (snd (sensor_set_pixformat board p s))) = geometry (MAIN_FB s)"
  unfolding sensor_set_pixformat_def Let_def
  by (simp add: case_prod_beta sensor_config_frame set_framebuffers_frame call_hook_frame
      sensor_abort_frame update_jpeg_buffer_frame delay_frame
      geometry_def [of "_\<lparr>pixfmt := _\<rparr>"] geometry_def [of "MAIN_FB s"] split: option.splits)

lemma set_pixformat_format:
  "pixformat (sensor (snd (sensor_set_pixformat board p s))) = pixformat (sensor s) \<or>
   pixformat (sensor (snd (sensor_set_pixformat board p s))) = p"
  unfolding sensor_set_pixformat_def Let_def
  by (simp add: case_prod_beta sensor_config_frame set_framebuffers_frame call_hook_frame
      sensor_abort_frame update_jpeg_buffer_frame delay_frame split: option.splits)

subsection \<open>Idempotence\<close>

text \<open>
  After a run that returns, the window fits at the bytes per pixel of the format the
  sensor is left in, or the sensor is still in a 2-byte color format (the switch to the
  raw format did not take) and the window fits at one byte per pixel.
\<close>

lemma auto_crop_settled:
  assumes run: "sensor_auto_crop_framebuffer board s = Some (r, s1)"
  shows "sensor_get_dst_bpp s1 = 0 \<or>
         u (MAIN_FB s1) * v (MAIN_FB s1) * sensor_get_dst_bpp s1
           \<le> framebuffer_get_buffer_size board \<or>
         ((pixformat (sensor s1) = PIXFORMAT_RGB565 \<or> pixformat (sensor s1) = PIXFORMAT_YUV422) \<and>
          u (MAIN_FB s1) * v (MAIN_FB s1) \<le> framebuffer_get_buffer_size board)"
proof -
  define cap where "cap = framebuffer_get_buffer_size board"
  define bpp where "bpp = sensor_get_dst_bpp s"
  define color where
    "color \<longleftrightarrow> pixformat (sensor s) = PIXFORMAT_RGB565 \<or> pixformat (sensor s) = PIXFORMAT_YUV422"
  define s' where "s' = (if color then snd (sensor_set_pixformat board PIXFORMAT_BAYER s) else s)"
  define bpp1 where "bpp1 = (if color then 1 else bpp)"
  define finish where "finish = (\<lambda>fb.
     (let fb1 = fb\<lparr>x := x fb + sdiv32 (u (MAIN_FB s') - u fb) 2,
                   y := y fb + sdiv32 (v (MAIN_FB s') - v fb) 2\<rparr>;
          fb2 = (if sint (x fb1) smod 2 \<noteq> 0 then fb1\<lparr>x := x fb1 - 1\<rparr> else fb1);
          fb3 = (if sint (y fb2) smod 2 \<noteq> 0 then fb2\<lparr>y := y fb2 - 1\<rparr> else fb2)
      in snd (sensor_set_framebuffers board (- 1) (s'\<lparr>MAIN_FB := fb3\<rparr>))))"
  define cs where "cs = crop_steps (u (MAIN_FB s')) (v (MAIN_FB s'))"
  have unfold: "sensor_auto_crop_framebuffer board s =
     (if bpp = 0 then Some (0, s)
      else if u (MAIN_FB s) * v (MAIN_FB s) * bpp \<le> cap then Some (0, s)
      else if color \<and> u (MAIN_FB s') * v (MAIN_FB s') \<le> cap then Some (0, s')
      else (case crop_loop cap bpp1 (fst cs) (snd cs) (MAIN_FB s') of
              None \<Rightarrow> None | Some fb \<Rightarrow> Some (0, finish fb)))"
    unfolding sensor_auto_crop_framebuffer_def Let_def case_prod_beta cap_def bpp_def
        color_def s'_def bpp1_def finish_def cs_def
    by (rule refl)
  have fmt: "pixformat (sensor s') = pixformat (sensor s) \<or>
             (color \<and> pixformat (sensor s') = PIXFORMAT_BAYER)"
    using set_pixformat_format [of board PIXFORMAT_BAYER s] by (auto simp: s'_def)
  have settled: "u (MAIN_FB t) * v (MAIN_FB t) * bpp1 \<le> cap \<Longrightarrow> bpp \<noteq> 0 \<Longrightarrow>
        pixformat (sensor t) = pixformat (sensor s') \<Longrightarrow>
        sensor_get_dst_bpp t = 0 \<or>
        u (MAIN_FB t) * v (MAIN_FB t) * sensor_get_dst_bpp t \<le> cap \<or>
        ((pixformat (sensor t) = PIXFORMAT_RGB565 \<or> pixformat (sensor t) = PIXFORMAT_YUV422) \<and>
          u (MAIN_FB t) * v (MAIN_FB t) \<le> cap)" for t
    using fmt
    by (auto simp: bpp1_def color_def bpp_def sensor_get_dst_bpp_def split: pixformat_t.splits)
  consider (zero) "bpp = 0" "s1 = s"
    | (fits) "bpp \<noteq> 0" "u (MAIN_FB s) * v (MAIN_FB s) * bpp \<le> cap" "s1 = s"
    | (raw) "bpp \<noteq> 0" "color" "u (MAIN_FB s') * v (MAIN_FB s') \<le> cap" "s1 = s'"
    | (crop) fb where "bpp \<noteq> 0" "crop_loop cap bpp1 (fst cs) (snd cs) (MAIN_FB s') = Some fb"
        "s1 = finish fb"
    using run unfolding unfold by (auto split: if_splits option.splits)
  then show ?thesis
  proof cases
    case zero
    then show ?thesis
      by (simp add: bpp_def)
  next
    case fits
    then show ?thesis
      by (simp add: bpp_def cap_def)
  next
    case raw
    then have "u (MAIN_FB s1) * v (MAIN_FB s1) * bpp1 \<le> cap"
      by (simp add: bpp1_def)
    from settled [OF this] raw show ?thesis
      by (simp add: cap_def)
  next
    case crop
    from crop_loop_result [OF crop(2)] have fits: "u fb * v fb * bpp1 \<le> cap"
      by simp
    have "geometry (MAIN_FB s1) = geometry (MAIN_FB (s'\<lparr>MAIN_FB :=
            (let fb1 = fb\<lparr>x := x fb + sdiv32 (u (MAIN_FB s') - u fb) 2,
                   y := y fb + sdiv32 (v (MAIN_FB s') - v fb) 2\<rparr>;
          fb2 = (if sint (x fb1) smod 2 \<noteq> 0 then fb1\<lparr>x := x fb1 - 1\<rparr> else fb1);
          fb3 = (if sint (y fb2) smod 2 \<noteq> 0 then fb2\<lparr>y := y fb2 - 1\<rparr> else fb2) in fb3)\<rparr>))"
      unfolding crop(3) finish_def Let_def by (simp only: set_framebuffers_frame)
    then have uv: "u (MAIN_FB s1) = u fb \<and> v (MAIN_FB s1) = v fb"
      by (simp add: geometry_def Let_def)
    have "sensor s1 = sensor s'"
      unfolding crop(3) finish_def Let_def by (simp add: set_framebuffers_frame)
    then have "pixformat (sensor s1) = pixformat (sensor s')"
      by simp
    from settled [OF _ crop(1) this] fits uv show ?thesis
      by (simp add: cap_def)
  qed
qed

text \<open>
  Claim C7: \<^verbatim>\<open>sensor_auto_crop_framebuffer\<close> is idempotent. A second run right after a
  first run that has returned returns too, and leaves the frame geometry (origin, active
  and backup width and height) exactly as the first run left it.
\<close>

theorem auto_crop_idempotent:
  assumes run: "sensor_auto_crop_framebuffer board s = Some (r, s1)"
  shows "\<exists>r2 s2. sensor_auto_crop_framebuffer board s1 = Some (r2, s2) \<and>
           geometry (MAIN_FB s2) = geometry (MAIN_FB s1)"
proof -
  let ?cap = "framebuffer_get_buffer_size board"
  let ?s' = "snd (sensor_set_pixformat board PIXFORMAT_BAYER s1)"
  have g: "geometry (MAIN_FB ?s') = geometry (MAIN_FB s1)"
    by (rule set_pixformat_geometry)
  from auto_crop_settled [OF run]
  consider (zero) "sensor_get_dst_bpp s1 = 0"
    | (fits) "u (MAIN_FB s1) * v (MAIN_FB s1) * sensor_get_dst_bpp s1 \<le> ?cap"
    | (raw) "sensor_get_dst_bpp s1 \<noteq> 0"
          "\<not> u (MAIN_FB s1) * v (MAIN_FB s1) * sensor_get_dst_bpp s1 \<le> ?cap"
          "pixformat (sensor s1) = PIXFORMAT_RGB565 \<or> pixformat (sensor s1) = PIXFORMAT_YUV422"
          "u (MAIN_FB s1) * v (MAIN_FB s1) \<le> ?cap"
    by blast
  then show ?thesis
  proof cases
    case zero
    then have "sensor_auto_crop_framebuffer board s1 = Some (0, s1)"
      by (simp add: sensor_auto_crop_framebuffer_def)
    then show ?thesis
      by simp
  next
    case fits
    then have "sensor_auto_crop_framebuffer board s1 = Some (0, s1)"
      by (simp add: sensor_auto_crop_framebuffer_def Let_def)
    then show ?thesis
      by simp
  next
    case raw
    from g raw(4) have "u (MAIN_FB ?s') * v (MAIN_FB ?s') \<le> ?cap"
      by (simp add: geometry_def)
    with raw have "sensor_auto_crop_framebuffer board s1 = Some (0, ?s')"
      by (simp add: sensor_auto_crop_framebuffer_def Let_def)
    with g show ?thesis
      by simp
  qed
qed

text \<open>
  A run that crops: an 8 by 4 window of 1-byte pixels in a buffer of 10 bytes becomes
  the 4 by 2 window at the origin (2, 0), and the second run keeps it.
\<close>

theorem auto_crop_idempotent_witness:
  "\<exists>r s1. sensor_auto_crop_framebuffer (example_board 10) (example_state PIXFORMAT_BAYER 8 4)
             = Some (r, s1) \<and>
          geometry (MAIN_FB s1) = (2, 0, 8, 4, 4, 2) \<and>
          (\<exists>r2 s2. sensor_auto_crop_framebuffer (example_board 10) s1 = Some (r2, s2) \<and>
                    geometry (MAIN_FB s2) = (2, 0, 8, 4, 4, 2))"
proof -
  have "map_option (\<lambda>(r, s). geometry (MAIN_FB s))
          (sensor_auto_crop_framebuffer (example_board 10) (example_state PIXFORMAT_BAYER 8 4))
        = Some (2, 0, 8, 4, 4, 2)"
    by code_simp
  then obtain r s1
    where run: "sensor_auto_crop_framebuffer (example_board 10)
                  (example_state PIXFORMAT_BAYER 8 4) = Some (r, s1)"
      and g1: "geometry (MAIN_FB s1) = (2, 0, 8, 4, 4, 2)"
    by auto
  from auto_crop_idempotent [OF run] g1 run show ?thesis
    by simp
qed

section \<open>Software frame-rate throttle\<close>

text \<open>
  Claim C3: the throttle follows the additive-baseline rule. At the first scanline of a
  frame (\<open>first_line\<close> is clear), with \<open>interval\<close> the value of \<^verbatim>\<open>IM_DIV(1000, framerate)\<close>:
  a frame that is not the very first and comes less than the interval after the baseline
  is marked dropped and the baseline stays; one that comes at least the interval after
  it is not marked and the baseline advances by exactly the interval, not to the
  current time; the very first frame is not marked and sets the baseline to the
  current time. With the interval 100 and frames at 0, 40, 110, 150 and 260, the frames
  at 0, 110 and 260 are accepted with the baselines 0, 100 and 200, and the frames at 40
  and 150 are dropped.
\<close>

theorem throttle_additive_baseline:
  assumes "IM_DIV 1000 (framerate s) = interval"
  shows "(\<not> first_line s \<longrightarrow>
            throttle_rule interval tick s (sensor_throttle_framerate IM_DIV tick s)) \<and>
         (interval = 100 \<and> \<not> last_frame_ms_valid s \<longrightarrow>
            throttle_frames IM_DIV [0, 40, 110, 150, 260] s =
              [(False, 0), (True, 0), (False, 100), (True, 100), (False, 200)])"
  using assms
  by (simp add: throttle_rule_def sensor_throttle_framerate_def frame_start_def Let_def)

theorem throttle_additive_baseline_witness:
  "guarded_div 1000 (framerate (no_hooks\<lparr>framerate := 10\<rparr>)) = 100 \<and>
   \<not> first_line (no_hooks\<lparr>framerate := 10\<rparr>) \<and>
   \<not> last_frame_ms_valid (no_hooks\<lparr>framerate := 10\<rparr>) \<and>
   throttle_rule 100 7 (no_hooks\<lparr>framerate := 10\<rparr>)
     (sensor_throttle_framerate guarded_div 7 (no_hooks\<lparr>framerate := 10\<rparr>)) \<and>
   throttle_frames guarded_div [0, 40, 110, 150, 260] (no_hooks\<lparr>framerate := 10\<rparr>) =
     [(False, 0), (True, 0), (False, 100), (True, 100), (False, 200)]"
proof -
  have interval: "guarded_div 1000 (framerate (no_hooks\<lparr>framerate := 10\<rparr>)) = 100"
    by (simp add: guarded_div_def signed_divide_int_def)
  have flags: "\<not> first_line (no_hooks\<lparr>framerate := 10\<rparr>)"
    "\<not> last_frame_ms_valid (no_hooks\<lparr>framerate := 10\<rparr>)"
    by (simp_all add: no_hooks_def)
  from throttle_additive_baseline
         [where IM_DIV = guarded_div and s = "no_hooks\<lparr>framerate := 10\<rparr>"
            and interval = 100 and tick = 7]
       interval flags
  show ?thesis
    by simp
qed

section \<open>Pixel format, windowing and transpose\<close>

text \<open>
  Claim C5: when the active format is the 1-byte raw format (BAYER), the requested one
  is RGB565 or YUV422, the geometry at 2 bytes per pixel exceeds the buffer capacity and
  the geometry at 1 byte per pixel fits, \<^verbatim>\<open>sensor_set_pixformat\<close> returns 0 and keeps the
  state as it is: no hook call, no change. The two sizes are the 32-bit products that
  the code compares with the capacity.
\<close>

theorem set_pixformat_keeps_bayer:
  assumes "pixformat (sensor s) = PIXFORMAT_BAYER"
    and "p = PIXFORMAT_RGB565 \<or> p = PIXFORMAT_YUV422"
    and "framebuffer_get_buffer_size board < u (MAIN_FB s) * v (MAIN_FB s) * 2"
    and "u (MAIN_FB s) * v (MAIN_FB s) * 1 \<le> framebuffer_get_buffer_size board"
  shows "sensor_set_pixformat board p s = (0, s)"
  using assms by (auto simp add: sensor_set_pixformat_def Let_def)

theorem set_pixformat_keeps_bayer_witness:
  "pixformat (sensor (example_state PIXFORMAT_BAYER 640 480)) = PIXFORMAT_BAYER \<and>
   framebuffer_get_buffer_size (example_board 400000)
     < u (MAIN_FB (example_state PIXFORMAT_BAYER 640 480)) *
       v (MAIN_FB (example_state PIXFORMAT_BAYER 640 480)) * 2 \<and>
   u (MAIN_FB (example_state PIXFORMAT_BAYER 640 480)) *
     v (MAIN_FB (example_state PIXFORMAT_BAYER 640 480)) * 1
     \<le> framebuffer_get_buffer_size (example_board 400000) \<and>
   sensor_set_pixformat (example_board 400000) PIXFORMAT_RGB565
     (example_state PIXFORMAT_BAYER 640 480) = (0, example_state PIXFORMAT_BAYER 640 480)"
proof -
  have a: "pixformat (sensor (example_state PIXFORMAT_BAYER 640 480)) = PIXFORMAT_BAYER"
    by (simp add: example_state_def)
  have b: "framebuffer_get_buffer_size (example_board 400000)
     < u (MAIN_FB (example_state PIXFORMAT_BAYER 640 480)) *
       v (MAIN_FB (example_state PIXFORMAT_BAYER 640 480)) * 2"
    by (simp add: example_state_def example_board_def)
  have c: "u (MAIN_FB (example_state PIXFORMAT_BAYER 640 480)) *
     v (MAIN_FB (example_state PIXFORMAT_BAYER 640 480)) * 1
     \<le> framebuffer_get_buffer_size (example_board 400000)"
    by (simp add: example_state_def example_board_def)
  from set_pixformat_keeps_bayer [OF a _ b c, of PIXFORMAT_RGB565] a b c show ?thesis
    by simp
qed

text \<open>
  Claim C9: when the active format is the compressed one (JPEG),
  \<^verbatim>\<open>sensor_set_windowing\<close> with a rectangle that differs from the current one (origin
  and backup width and height) returns "pixel format unsupported" and leaves the whole
  state as before the call.
\<close>

theorem set_windowing_rejected_in_jpeg:
  assumes "pixformat (sensor s) = PIXFORMAT_JPEG"
    and "\<not> (x (MAIN_FB s) = x' \<and> y (MAIN_FB s) = y' \<and> u (MAIN_FB s) = w' \<and> v (MAIN_FB s) = h')"
  shows "sensor_set_windowing board x' y' w' h' s = (SENSOR_ERROR_PIXFORMAT_UNSUPPORTED, s)"
  using assms by (auto simp add: sensor_set_windowing_def Let_def)

theorem set_windowing_rejected_in_jpeg_witness:
  "pixformat (sensor (example_state PIXFORMAT_JPEG 640 480)) = PIXFORMAT_JPEG \<and>
   u (MAIN_FB (example_state PIXFORMAT_JPEG 640 480)) = 640 \<and>
   sensor_set_windowing (example_board 400000) 0 0 320 240 (example_state PIXFORMAT_JPEG 640 480)
     = (- 17, example_state PIXFORMAT_JPEG 640 480)"
proof -
  have a: "pixformat (sensor (example_state PIXFORMAT_JPEG 640 480)) = PIXFORMAT_JPEG"
    and b: "u (MAIN_FB (example_state PIXFORMAT_JPEG 640 480)) = 640"
    by (simp_all add: example_state_def)
  from b have c: "\<not> (x (MAIN_FB (example_state PIXFORMAT_JPEG 640 480)) = 0 \<and>
      y (MAIN_FB (example_state PIXFORMAT_JPEG 640 480)) = 0 \<and>
      u (MAIN_FB (example_state PIXFORMAT_JPEG 640 480)) = 320 \<and>
      v (MAIN_FB (example_state PIXFORMAT_JPEG 640 480)) = 240)"
    by simp
  from set_windowing_rejected_in_jpeg [OF a c, of "example_board 400000"] a b show ?thesis
    by (simp add: SENSOR_ERROR_PIXFORMAT_UNSUPPORTED_def)
qed

subsection \<open>Transpose under the packed and compressed formats\<close>

text \<open>
  What the two setters that write the pixel format and the transpose flag do to the
  sensor record: nothing, or the one write, and that only behind their tests.
\<close>

lemma set_pixformat_sensor:
  "sensor (snd (sensor_set_pixformat board p s)) = sensor s \<or>
   (sensor (snd (sensor_set_pixformat board p s)) = (sensor s)\<lparr>pixformat := p\<rparr> \<and>
    \<not> (p = PIXFORMAT_YUV422 \<and> transpose (sensor s)) \<and>
    \<not> (p = PIXFORMAT_JPEG \<and> transpose (sensor s)))"
  unfolding sensor_set_pixformat_def Let_def
  by (simp add: case_prod_beta sensor_config_frame set_framebuffers_frame call_hook_frame
      sensor_abort_frame update_jpeg_buffer_frame delay_frame split: option.splits)

lemma set_transpose_sensor:
  "sensor (snd (sensor_set_transpose enable s)) = sensor s \<or>
   (sensor (snd (sensor_set_transpose enable s)) = (sensor s)\<lparr>transpose := enable\<rparr> \<and>
    pixformat (sensor s) \<noteq> PIXFORMAT_YUV422 \<and> pixformat (sensor s) \<noteq> PIXFORMAT_JPEG)"
  by (simp add: sensor_set_transpose_def sensor_abort_def Let_def)

text \<open>
  The invariant of the two fields: in a state that the file can produce, the packed
  and the compressed format come with a clear transpose flag.
\<close>

lemma reachable_transpose_clear:
  "reachable s \<Longrightarrow>
   pixformat (sensor s) = PIXFORMAT_JPEG \<or> pixformat (sensor s) = PIXFORMAT_YUV422 \<Longrightarrow>
   \<not> transpose (sensor s)"
proof (induction rule: reachable.induct)
  case (after_reset s)
  then show ?case
    by simp
next
  case (after_set_pixformat s board p)
  with set_pixformat_sensor [of board p s] show ?case
    by auto
next
  case (after_set_transpose s enable)
  with set_transpose_sensor [of enable s] show ?case
    by auto
next
  case (after_other s s1)
  then show ?case
    by simp
qed

text \<open>
  Claim C8: in every state whose active pixel format is the compressed (JPEG) or the
  packed-color (YUV422) format, requesting transpose through \<^verbatim>\<open>sensor_set_transpose\<close>
  returns "pixel format unsupported" and leaves the transpose flag unchanged. The
  states are the ones the file can produce, the request is \<^verbatim>\<open>sensor_set_transpose(true)\<close>;
  the whole sensor record stays as it is.
\<close>

theorem set_transpose_refused:
  assumes "reachable s"
    and "pixformat (sensor s) = PIXFORMAT_JPEG \<or> pixformat (sensor s) = PIXFORMAT_YUV422"
  shows "fst (sensor_set_transpose True s) = SENSOR_ERROR_PIXFORMAT_UNSUPPORTED \<and>
         transpose (sensor (snd (sensor_set_transpose True s))) = transpose (sensor s) \<and>
         sensor (snd (sensor_set_transpose True s)) = sensor s"
  using reachable_transpose_clear [OF assms] assms(2)
  by (auto simp add: sensor_set_transpose_def sensor_abort_def Let_def)

text \<open>
  A state with the compressed format, reached from reset by selecting it: the transpose
  request returns -17 and the flag stays clear.
\<close>

theorem set_transpose_refused_witness:
  "reachable jpeg_state \<and> pixformat (sensor jpeg_state) = PIXFORMAT_JPEG \<and>
   fst (sensor_set_transpose True jpeg_state) = - 17 \<and>
   \<not> transpose (sensor (snd (sensor_set_transpose True jpeg_state)))"
proof -
  have reach: "reachable jpeg_state"
    unfolding jpeg_state_def
    by (rule reachable.after_set_pixformat, rule reachable.after_reset)
       (simp_all add: after_reset_state_def no_hooks_def)
  have fmt: "pixformat (sensor jpeg_state) = PIXFORMAT_JPEG"
    by code_simp
  have clear: "\<not> transpose (sensor jpeg_state)"
    by code_simp
  from fmt have "pixformat (sensor jpeg_state) = PIXFORMAT_JPEG \<or>
      pixformat (sensor jpeg_state) = PIXFORMAT_YUV422"
    by simp
  from set_transpose_refused [OF reach this] reach fmt clear show ?thesis
    by (simp add: SENSOR_ERROR_PIXFORMAT_UNSUPPORTED_def)
qed

section \<open>Absent capabilities\<close>

lemma hook_calls_append: "hook_calls (es @ es') = hook_calls es @ hook_calls es'"
  by (induction es rule: hook_calls.induct) simp_all

lemma sensor_read_reg_absent:
  "read_reg (sensor s) = None \<Longrightarrow> refused_unsupported s (sensor_read_reg reg_addr s)"
  by (simp add: refused_unsupported_def sensor_read_reg_def sensor_abort_def
      framebuffer_update_jpeg_buffer_def Let_def hook_calls_append)

lemma sensor_write_reg_absent:
  "write_reg (sensor s) = None \<Longrightarrow> refused_unsupported s (sensor_write_reg reg_addr reg_data s)"
  by (simp add: refused_unsupported_def sensor_write_reg_def sensor_abort_def
      framebuffer_update_jpeg_buffer_def Let_def hook_calls_append)

lemma sensor_set_contrast_absent:
  "set_contrast (sensor s) = None \<Longrightarrow> refused_unsupported s (sensor_set_contrast level s)"
  by (simp add: refused_unsupported_def sensor_set_contrast_def sensor_abort_def
      framebuffer_update_jpeg_buffer_def Let_def hook_calls_append)

lemma sensor_set_brightness_absent:
  "set_brightness (sensor s) = None \<Longrightarrow> refused_unsupported s (sensor_set_brightness level s)"
  by (simp add: refused_unsupported_def sensor_set_brightness_def sensor_abort_def
      framebuffer_update_jpeg_buffer_def Let_def hook_calls_append)

lemma sensor_set_saturation_absent:
  "set_saturation (sensor s) = None \<Longrightarrow> refused_unsupported s (sensor_set_saturation level s)"
  by (simp add: refused_unsupported_def sensor_set_saturation_def sensor_abort_def
      framebuffer_update_jpeg_buffer_def Let_def hook_calls_append)

lemma sensor_set_gainceiling_absent:
  "set_gainceiling (sensor s) = None \<Longrightarrow> gainceiling (sensor s) \<noteq> gainceiling' \<Longrightarrow> refused_unsupported s (sensor_set_gainceiling gainceiling' s)"
  by (simp add: refused_unsupported_def sensor_set_gainceiling_def sensor_abort_def
      framebuffer_update_jpeg_buffer_def Let_def hook_calls_append)

lemma sensor_set_quality_absent:
  "set_quality (sensor s) = None \<Longrightarrow> refused_unsupported s (sensor_set_quality qs s)"
  by (simp add: refused_unsupported_def sensor_set_quality_def sensor_abort_def
      framebuffer_update_jpeg_buffer_def Let_def hook_calls_append)

lemma sensor_set_colorbar_absent:
  "set_colorbar (sensor s) = None \<Longrightarrow> refused_unsupported s (sensor_set_colorbar enable s)"
  by (simp add: refused_unsupported_def sensor_set_colorbar_def sensor_abort_def
      framebuffer_update_jpeg_buffer_def Let_def hook_calls_append)

lemma sensor_set_auto_gain_absent:
  "set_auto_gain (sensor s) = None \<Longrightarrow> refused_unsupported s (sensor_set_auto_gain enable gain_db gain_db_ceiling s)"
  by (simp add: refused_unsupported_def sensor_set_auto_gain_def sensor_abort_def
      framebuffer_update_jpeg_buffer_def Let_def hook_calls_append)

lemma sensor_set_auto_exposure_absent:
  "set_auto_exposure (sensor s) = None \<Longrightarrow> refused_unsupported s (sensor_set_auto_exposure enable exposure_us s)"
  by (simp add: refused_unsupported_def sensor_set_auto_exposure_def sensor_abort_def
      framebuffer_update_jpeg_buffer_def Let_def hook_calls_append)

lemma sensor_set_auto_whitebal_absent:
  "set_auto_whitebal (sensor s) = None \<Longrightarrow> refused_unsupported s (sensor_set_auto_whitebal enable r_gain_db g_gain_db b_gain_db s)"
  by (simp add: refused_unsupported_def sensor_set_auto_whitebal_def sensor_abort_def
      framebuffer_update_jpeg_buffer_def Let_def hook_calls_append)

lemma sensor_set_auto_blc_absent:
  "set_auto_blc (sensor s) = None \<Longrightarrow> refused_unsupported s (sensor_set_auto_blc enable regs s)"
  by (simp add: refused_unsupported_def sensor_set_auto_blc_def sensor_abort_def
      framebuffer_update_jpeg_buffer_def Let_def hook_calls_append)

lemma sensor_set_lens_correction_absent:
  "set_lens_correction (sensor s) = None \<Longrightarrow> refused_unsupported s (sensor_set_lens_correction enable radi coef s)"
  by (simp add: refused_unsupported_def sensor_set_lens_correction_def sensor_abort_def
      framebuffer_update_jpeg_buffer_def Let_def hook_calls_append)

lemma sensor_set_special_effect_absent:
  "set_special_effect (sensor s) = None \<Longrightarrow> sde (sensor s) \<noteq> sde' \<Longrightarrow> refused_unsupported s (sensor_set_special_effect sde' s)"
  by (simp add: refused_unsupported_def sensor_set_special_effect_def sensor_abort_def
      framebuffer_update_jpeg_buffer_def Let_def hook_calls_append)

lemma sensor_set_hmirror_absent:
  "set_hmirror (sensor s) = None \<Longrightarrow> hmirror (sensor s) \<noteq> (enable \<noteq> 0) \<Longrightarrow> refused_unsupported s (sensor_set_hmirror enable s)"
  by (simp add: refused_unsupported_def sensor_set_hmirror_def sensor_abort_def
      framebuffer_update_jpeg_buffer_def Let_def hook_calls_append)

lemma sensor_set_vflip_absent:
  "set_vflip (sensor s) = None \<Longrightarrow> vflip (sensor s) \<noteq> (enable \<noteq> 0) \<Longrightarrow> refused_unsupported s (sensor_set_vflip enable s)"
  by (simp add: refused_unsupported_def sensor_set_vflip_def sensor_abort_def
      framebuffer_update_jpeg_buffer_def Let_def hook_calls_append)

lemma sensor_ioctl_absent:
  "ioctl (sensor s) = None \<Longrightarrow> refused_unsupported s (sensor_ioctl request ap s)"
  by (simp add: refused_unsupported_def sensor_ioctl_def sensor_abort_def
      framebuffer_update_jpeg_buffer_def Let_def hook_calls_append)

lemma sensor_set_framesize_absent:
  "set_framesize (sensor s) = None \<Longrightarrow> framesize (sensor s) \<noteq> framesize' \<Longrightarrow> refused_unsupported s (sensor_set_framesize board framesize' s)"
  by (simp add: refused_unsupported_def sensor_set_framesize_def sensor_abort_def
      framebuffer_update_jpeg_buffer_def Let_def hook_calls_append)

lemma sensor_set_pixformat_absent:
  assumes "set_pixformat (sensor s) = None"
    and "pixformat (sensor s) \<noteq> p \<and>
      \<not> (pixformat (sensor s) = PIXFORMAT_BAYER \<and>
         (p = PIXFORMAT_RGB565 \<or> p = PIXFORMAT_YUV422) \<and>
         framebuffer_get_buffer_size board < u (MAIN_FB s) * v (MAIN_FB s) * 2 \<and>
         u (MAIN_FB s) * v (MAIN_FB s) * 1 \<le> framebuffer_get_buffer_size board) \<and>
      \<not> (p = PIXFORMAT_YUV422 \<and> (transpose (sensor s) \<or> auto_rotation (sensor s))) \<and>
      \<not> (p = PIXFORMAT_JPEG \<and>
         (sensor_get_cropped s \<or> transpose (sensor s) \<or> auto_rotation (sensor s)))"
  shows "refused_unsupported s (sensor_set_pixformat board p s)"
  using assms
  by (auto simp add: refused_unsupported_def sensor_set_pixformat_def sensor_abort_def
      framebuffer_update_jpeg_buffer_def Let_def hook_calls_append)

text \<open>
  Claim C6: every capability-gated setter (register read and write, contrast,
  brightness, saturation, gain ceiling, quality, colorbar, auto gain, auto exposure,
  auto white balance, black-level calibration, lens correction, special effect, mirror,
  flip, ioctl, frame size, pixel format) whose slot is absent, and whose checks in front
  of the slot test pass, returns "control unsupported", calls no driver hook and
  changes no field of the sensor record (nor the geometry or the hardware).
\<close>

theorem absent_capability_is_unsupported:
  "(read_reg (sensor s) = None \<longrightarrow>
      refused_unsupported s (sensor_read_reg reg_addr s)) \<and>
   (write_reg (sensor s) = None \<longrightarrow>
      refused_unsupported s (sensor_write_reg reg_addr reg_data s)) \<and>
   (set_contrast (sensor s) = None \<longrightarrow>
      refused_unsupported s (sensor_set_contrast level s)) \<and>
   (set_brightness (sensor s) = None \<longrightarrow>
      refused_unsupported s (sensor_set_brightness level s)) \<and>
   (set_saturation (sensor s) = None \<longrightarrow>
      refused_unsupported s (sensor_set_saturation level s)) \<and>
   (set_gainceiling (sensor s) = None \<and> gainceiling (sensor s) \<noteq> gainceiling' \<longrightarrow>
      refused_unsupported s (sensor_set_gainceiling gainceiling' s)) \<and>
   (set_quality (sensor s) = None \<longrightarrow>
      refused_unsupported s (sensor_set_quality qs s)) \<and>
   (set_colorbar (sensor s) = None \<longrightarrow>
      refused_unsupported s (sensor_set_colorbar enable s)) \<and>
   (set_auto_gain (sensor s) = None \<longrightarrow>
      refused_unsupported s (sensor_set_auto_gain enable gain_db gain_db_ceiling s)) \<and>
   (set_auto_exposure (sensor s) = None \<longrightarrow>
      refused_unsupported s (sensor_set_auto_exposure enable exposure_us s)) \<and>
   (set_auto_whitebal (sensor s) = None \<longrightarrow>
      refused_unsupported s (sensor_set_auto_whitebal enable r_gain_db g_gain_db b_gain_db s)) \<and>
   (set_auto_blc (sensor s) = None \<longrightarrow>
      refused_unsupported s (sensor_set_auto_blc enable regs s)) \<and>
   (set_lens_correction (sensor s) = None \<longrightarrow>
      refused_unsupported s (sensor_set_lens_correction enable radi coef s)) \<and>
   (set_special_effect (sensor s) = None \<and> sde (sensor s) \<noteq> sde' \<longrightarrow>
      refused_unsupported s (sensor_set_special_effect sde' s)) \<and>
   (set_hmirror (sensor s) = None \<and> hmirror (sensor s) \<noteq> (enable \<noteq> 0) \<longrightarrow>
      refused_unsupported s (sensor_set_hmirror enable s)) \<and>
   (set_vflip (sensor s) = None \<and> vflip (sensor s) \<noteq> (enable \<noteq> 0) \<longrightarrow>
      refused_unsupported s (sensor_set_vflip enable s)) \<and>
   (ioctl (sensor s) = None \<longrightarrow>
      refused_unsupported s (sensor_ioctl request ap s)) \<and>
   (set_framesize (sensor s) = None \<and> framesize (sensor s) \<noteq> framesize' \<longrightarrow>
      refused_unsupported s (sensor_set_framesize board framesize' s)) \<and>
   (set_pixformat (sensor s) = None \<and>
      pixformat (sensor s) \<noteq> p \<and>
      \<not> (pixformat (sensor s) = PIXFORMAT_BAYER \<and>
         (p = PIXFORMAT_RGB565 \<or> p = PIXFORMAT_YUV422) \<and>
         framebuffer_get_buffer_size board < u (MAIN_FB s) * v (MAIN_FB s) * 2 \<and>
         u (MAIN_FB s) * v (MAIN_FB s) * 1 \<le> framebuffer_get_buffer_size board) \<and>
      \<not> (p = PIXFORMAT_YUV422 \<and> (transpose (sensor s) \<or> auto_rotation (sensor s))) \<and>
      \<not> (p = PIXFORMAT_JPEG \<and>
         (sensor_get_cropped s \<or> transpose (sensor s) \<or> auto_rotation (sensor s))) \<longrightarrow>
      refused_unsupported s (sensor_set_pixformat board p s))"
  by (intro conjI impI)
     (simp_all add: sensor_read_reg_absent sensor_write_reg_absent sensor_set_contrast_absent
       sensor_set_brightness_absent sensor_set_saturation_absent sensor_set_gainceiling_absent
       sensor_set_quality_absent sensor_set_colorbar_absent sensor_set_auto_gain_absent
       sensor_set_auto_exposure_absent sensor_set_auto_whitebal_absent sensor_set_auto_blc_absent
       sensor_set_lens_correction_absent sensor_set_special_effect_absent sensor_set_hmirror_absent
       sensor_set_vflip_absent sensor_ioctl_absent sensor_set_framesize_absent
       sensor_set_pixformat_absent)

text \<open>
  A sensor without any capability: every one of the setters refuses, on an RGB565 VGA
  state, with values that differ from the current ones.
\<close>

theorem absent_capability_is_unsupported_witness:
  "refused_unsupported (example_state PIXFORMAT_RGB565 640 480)
     (sensor_read_reg 0 (example_state PIXFORMAT_RGB565 640 480)) \<and>
   refused_unsupported (example_state PIXFORMAT_RGB565 640 480)
     (sensor_write_reg 0 0 (example_state PIXFORMAT_RGB565 640 480)) \<and>
   refused_unsupported (example_state PIXFORMAT_RGB565 640 480)
     (sensor_set_contrast 1 (example_state PIXFORMAT_RGB565 640 480)) \<and>
   refused_unsupported (example_state PIXFORMAT_RGB565 640 480)
     (sensor_set_brightness 1 (example_state PIXFORMAT_RGB565 640 480)) \<and>
   refused_unsupported (example_state PIXFORMAT_RGB565 640 480)
     (sensor_set_saturation 1 (example_state PIXFORMAT_RGB565 640 480)) \<and>
   refused_unsupported (example_state PIXFORMAT_RGB565 640 480)
     (sensor_set_gainceiling 1 (example_state PIXFORMAT_RGB565 640 480)) \<and>
   refused_unsupported (example_state PIXFORMAT_RGB565 640 480)
     (sensor_set_quality 1 (example_state PIXFORMAT_RGB565 640 480)) \<and>
   refused_unsupported (example_state PIXFORMAT_RGB565 640 480)
     (sensor_set_colorbar 1 (example_state PIXFORMAT_RGB565 640 480)) \<and>
   refused_unsupported (example_state PIXFORMAT_RGB565 640 480)
     (sensor_set_auto_gain 1 0 0 (example_state PIXFORMAT_RGB565 640 480)) \<and>
   refused_unsupported (example_state PIXFORMAT_RGB565 640 480)
     (sensor_set_auto_exposure 1 0 (example_state PIXFORMAT_RGB565 640 480)) \<and>
   refused_unsupported (example_state PIXFORMAT_RGB565 640 480)
     (sensor_set_auto_whitebal 1 0 0 0 (example_state PIXFORMAT_RGB565 640 480)) \<and>
   refused_unsupported (example_state PIXFORMAT_RGB565 640 480)
     (sensor_set_auto_blc 1 [] (example_state PIXFORMAT_RGB565 640 480)) \<and>
   refused_unsupported (example_state PIXFORMAT_RGB565 640 480)
     (sensor_set_lens_correction 1 0 0 (example_state PIXFORMAT_RGB565 640 480)) \<and>
   refused_unsupported (example_state PIXFORMAT_RGB565 640 480)
     (sensor_set_special_effect 1 (example_state PIXFORMAT_RGB565 640 480)) \<and>
   refused_unsupported (example_state PIXFORMAT_RGB565 640 480)
     (sensor_set_hmirror 1 (example_state PIXFORMAT_RGB565 640 480)) \<and>
   refused_unsupported (example_state PIXFORMAT_RGB565 640 480)
     (sensor_set_vflip 1 (example_state PIXFORMAT_RGB565 640 480)) \<and>
   refused_unsupported (example_state PIXFORMAT_RGB565 640 480)
     (sensor_ioctl 0 [] (example_state PIXFORMAT_RGB565 640 480)) \<and>
   refused_unsupported (example_state PIXFORMAT_RGB565 640 480)
     (sensor_set_framesize (example_board 1000000) FRAMESIZE_QVGA (example_state PIXFORMAT_RGB565 640 480)) \<and>
   refused_unsupported (example_state PIXFORMAT_RGB565 640 480)
     (sensor_set_pixformat (example_board 1000000) PIXFORMAT_GRAYSCALE (example_state PIXFORMAT_RGB565 640 480))"
proof -
  let ?s = "example_state PIXFORMAT_RGB565 640 480"
  have slots:
    "read_reg (sensor ?s) = None"
    "write_reg (sensor ?s) = None"
    "set_contrast (sensor ?s) = None"
    "set_brightness (sensor ?s) = None"
    "set_saturation (sensor ?s) = None"
    "set_gainceiling (sensor ?s) = None"
    "set_quality (sensor ?s) = None"
    "set_colorbar (sensor ?s) = None"
    "set_auto_gain (sensor ?s) = None"
    "set_auto_exposure (sensor ?s) = None"
    "set_auto_whitebal (sensor ?s) = None"
    "set_auto_blc (sensor ?s) = None"
    "set_lens_correction (sensor ?s) = None"
    "set_special_effect (sensor ?s) = None"
    "set_hmirror (sensor ?s) = None"
    "set_vflip (sensor ?s) = None"
    "ioctl (sensor ?s) = None"
    "set_framesize (sensor ?s) = None"
    "set_pixformat (sensor ?s) = None"
    by (simp_all add: example_state_def no_hooks_def)
  have current: "gainceiling (sensor ?s) = 0" "sde (sensor ?s) = 0" "\<not> hmirror (sensor ?s)"
    "\<not> vflip (sensor ?s)" "framesize (sensor ?s) = FRAMESIZE_VGA"
    "pixformat (sensor ?s) = PIXFORMAT_RGB565"
    by (simp_all add: example_state_def no_hooks_def)
  from absent_capability_is_unsupported
         [where s = ?s and board = "example_board 1000000" and reg_addr = 0 and reg_data = 0
            and level = 1 and gainceiling' = 1 and qs = 1 and enable = 1 and gain_db = 0
            and gain_db_ceiling = 0 and exposure_us = 0 and r_gain_db = 0 and g_gain_db = 0
            and b_gain_db = 0 and regs = "[]" and radi = 0 and coef = 0 and sde' = 1
            and request = 0 and ap = "[]" and framesize' = FRAMESIZE_QVGA
            and p = PIXFORMAT_GRAYSCALE]
       slots current
  show ?thesis
    by simp
qed

section \<open>Line copy\<close>

subsection \<open>Copies that stay in memory\<close>

lemma mapped_iff: "mapped m a n \<longleftrightarrow> (\<forall>k<n. a + of_nat k \<in> dom m)"
  by (auto simp: mapped_def list_all_iff)

lemma cells_iff:
  "cells m a stride t n \<longleftrightarrow> (\<forall>k<n. mapped m (a + of_nat k * stride) (sizeof t))"
  by (auto simp: cells_def list_all_iff)

lemma mapped_dom: "dom m1 = dom m \<Longrightarrow> mapped m1 a n = mapped m a n"
  by (simp add: mapped_iff)

lemma cells_dom: "dom m1 = dom m \<Longrightarrow> cells m1 a stride t n = cells m a stride t n"
  by (simp add: cells_iff mapped_iff)

lemma cells_Suc:
  "cells m a stride t (Suc n) \<longleftrightarrow> mapped m a (sizeof t) \<and> cells m (a + stride) stride t n"
proof -
  have shift: "a + of_nat (Suc k) * stride = a + stride + of_nat k * stride" for k
    by (simp add: distrib_right)
  have "(\<forall>k<Suc n. mapped m (a + of_nat k * stride) (sizeof t)) \<longleftrightarrow>
        mapped m (a + of_nat 0 * stride) (sizeof t) \<and>
        (\<forall>k<n. mapped m (a + of_nat (Suc k) * stride) (sizeof t))"
    by (auto simp: less_Suc_eq_0_disj)
  then show ?thesis
    unfolding cells_iff shift by simp
qed

lemma upt_2: "[0..<2] = [0, Suc 0]"
  by code_simp

lemma mapped_1: "mapped m a (Suc 0) \<longleftrightarrow> m a \<noteq> None"
  by (simp add: mapped_def)

lemma mapped_2: "mapped m a 2 \<longleftrightarrow> m a \<noteq> None \<and> m (a + 1) \<noteq> None"
  by (simp add: mapped_def upt_2)


lemma store_byte_ok:
  "m a \<noteq> None \<Longrightarrow> \<exists>m1. store_byte m a b = Inr m1 \<and> dom m1 = dom m"
  by (auto simp: store_byte_def)

lemma load_byte_ok:
  "m a \<noteq> None \<Longrightarrow> \<exists>b. load_byte m a = Inr b"
  by (auto simp: load_byte_def)

lemma load_elem_ok:
  assumes "mapped m a (sizeof t)"
  shows "\<exists>val. load_elem t m a = Inr val"
proof (cases t)
  case UINT8
  with assms have "m a \<noteq> None"
    by (simp add: mapped_1)
  with load_byte_ok [of m a] UINT8 show ?thesis
    by auto
next
  case UINT16
  with assms have "m a \<noteq> None" "m (a + 1) \<noteq> None"
    by (simp_all add: mapped_2)
  with load_byte_ok [of m a] load_byte_ok [of m "a + 1"] UINT16 show ?thesis
    by auto
qed

lemma store_elem_ok:
  assumes "mapped m a (sizeof t)"
  shows "\<exists>m1. store_elem t m a val = Inr m1 \<and> dom m1 = dom m"
proof (cases t)
  case UINT8
  with assms have "m a \<noteq> None"
    by (simp add: mapped_1)
  with store_byte_ok [of m a "ucast val"] UINT8 show ?thesis
    by simp
next
  case UINT16
  with assms have lo: "m a \<noteq> None" and hi: "m (a + 1) \<noteq> None"
    by (simp_all add: mapped_2)
  from store_byte_ok [of m a "ucast val"] lo obtain m1
    where s1: "store_byte m a (ucast val) = Inr m1" and d1: "dom m1 = dom m"
    by blast
  from hi d1 have "m1 (a + 1) \<noteq> None"
    by (metis domIff)
  with store_byte_ok [of m1 "a + 1" "ucast (drop_bit 8 val)"] obtain m2
    where "store_byte m1 (a + 1) (ucast (drop_bit 8 val)) = Inr m2" and "dom m2 = dom m1"
    by blast
  with s1 d1 UINT16 show ?thesis
    by simp
qed

lemma copy_elems_ok:
  "cells m srcp (of_nat (sizeof src_t)) src_t n \<Longrightarrow>
   cells m dstp (of_nat (sizeof dst_t)) dst_t n \<Longrightarrow>
   \<exists>m'. copy_elems f dst_t src_t n dstp srcp m = Inr m' \<and> dom m' = dom m"
proof (induction n arbitrary: dstp srcp m)
  case 0
  then show ?case by simp
next
  case (Suc n)
  from Suc.prems have src0: "mapped m srcp (sizeof src_t)"
    and srcs: "cells m (srcp + of_nat (sizeof src_t)) (of_nat (sizeof src_t)) src_t n"
    and dst0: "mapped m dstp (sizeof dst_t)"
    and dsts: "cells m (dstp + of_nat (sizeof dst_t)) (of_nat (sizeof dst_t)) dst_t n"
    by (simp_all add: cells_Suc)
  from load_elem_ok [OF src0] obtain val where ld: "load_elem src_t m srcp = Inr val"
    by blast
  from store_elem_ok [OF dst0] obtain m1
    where st: "store_elem dst_t m dstp (f val) = Inr m1" and d: "dom m1 = dom m"
    by blast
  from srcs dsts have "cells m1 (srcp + of_nat (sizeof src_t)) (of_nat (sizeof src_t)) src_t n"
    and "cells m1 (dstp + of_nat (sizeof dst_t)) (of_nat (sizeof dst_t)) dst_t n"
    by (simp_all add: cells_dom [OF d])
  from Suc.IH [OF this]
  obtain m' where "copy_elems f dst_t src_t n (dstp + of_nat (sizeof dst_t))
                     (srcp + of_nat (sizeof src_t)) m1 = Inr m'" and "dom m' = dom m1"
    by blast
  with ld st d show ?case
    by simp
qed

lemma transposed_loop_ok:
  "n < 2 ^ 31 \<Longrightarrow> i = of_nat n \<Longrightarrow>
   cells m srcp (of_nat (sizeof src_t)) src_t n \<Longrightarrow>
   cells m dstp (h' * of_nat (sizeof dst_t)) dst_t n \<Longrightarrow>
   \<exists>m'. transposed_loop f dst_t src_t i h' dstp srcp m = Inr m' \<and> dom m' = dom m"
proof (induction n arbitrary: i dstp srcp m)
  case 0
  then show ?case by simp
next
  case (Suc n)
  from Suc.prems have src0: "mapped m srcp (sizeof src_t)"
    and srcs: "cells m (srcp + of_nat (sizeof src_t)) (of_nat (sizeof src_t)) src_t n"
    and dst0: "mapped m dstp (sizeof dst_t)"
    and dsts: "cells m (dstp + h' * of_nat (sizeof dst_t)) (h' * of_nat (sizeof dst_t)) dst_t n"
    by (simp_all add: cells_Suc)
  from Suc.prems(1) have "Suc n < 2 ^ LENGTH(32)"
    by simp
  with Suc.prems(2) have un: "unat i = Suc n"
    by (simp add: of_nat_inverse)
  then have nz: "i \<noteq> 0"
    by auto
  have "unat (- (2 ^ 31) :: 32 word) = 2 ^ 31"
    by simp
  with un Suc.prems(1) have nmin: "i \<noteq> - (2 ^ 31)"
    by auto
  from Suc.prems(2) have pred: "i - 1 = of_nat n"
    by simp
  from Suc.prems(1) have small: "n < 2 ^ 31"
    by simp
  from load_elem_ok [OF src0] obtain val where ld: "load_elem src_t m srcp = Inr val"
    by blast
  from store_elem_ok [OF dst0] obtain m1
    where st: "store_elem dst_t m dstp (f val) = Inr m1" and d: "dom m1 = dom m"
    by blast
  from srcs dsts have "cells m1 (srcp + of_nat (sizeof src_t)) (of_nat (sizeof src_t)) src_t n"
    and "cells m1 (dstp + h' * of_nat (sizeof dst_t)) (h' * of_nat (sizeof dst_t)) dst_t n"
    by (simp_all add: cells_dom [OF d])
  from Suc.IH [OF small pred this]
  obtain m' where "transposed_loop f dst_t src_t (i - 1) h' (dstp + h' * of_nat (sizeof dst_t))
                     (srcp + of_nat (sizeof src_t)) m1 = Inr m'" and "dom m' = dom m1"
    by blast
  with ld st d nz nmin show ?case
    by (subst transposed_loop.simps) simp
qed



lemma uint_less_unat_less: "uint (a :: 32 word) < 2 ^ 31 \<Longrightarrow> unat a < 2 ^ 31"
  by transfer simp

lemma sint_nonneg_unat:
  assumes "0 \<le> sint (a :: 32 word)"
  shows "unat a < 2 ^ 31"
proof -
  have lt: "sint a < 2 ^ 31"
    using sint_lt [of a] by simp
  have "uint a = take_bit 32 (sint a)"
    using uint_sint [of a] by simp
  also have "\<dots> = sint a"
    using assms lt by (simp add: take_bit_int_eq_self)
  finally have "uint a < 2 ^ 31"
    using lt by simp
  then show ?thesis
    by (rule uint_less_unat_less)
qed

lemma straight_copy_ok:
  assumes "straight_in_bounds dst_t src_t n dstp srcp m"
  shows "\<exists>m'. return_0 (copy_elems f dst_t src_t (unat n) dstp srcp m) = Inr (0, m')"
proof -
  from assms copy_elems_ok [of m srcp src_t "unat n" dstp dst_t f]
  obtain m' where "copy_elems f dst_t src_t (unat n) dstp srcp m = Inr m'"
    by (auto simp: straight_in_bounds_def)
  then show ?thesis
    by (simp add: return_0_def)
qed

lemma transposed_copy_ok:
  assumes "transposed_in_bounds dst_t src_t width h' dstp srcp m"
  shows "\<exists>m'. return_0 (transposed_loop f dst_t src_t width h' dstp srcp m) = Inr (0, m')"
proof -
  from assms have "0 \<le> sint width"
    by (simp add: transposed_in_bounds_def)
  then have "unat width < 2 ^ 31"
    by (rule sint_nonneg_unat)
  moreover have "width = of_nat (unat width)"
    by simp
  ultimately obtain m' where "transposed_loop f dst_t src_t width h' dstp srcp m = Inr m'"
    using assms transposed_loop_ok [of "unat width" width m srcp src_t dstp h' dst_t f]
    by (auto simp: transposed_in_bounds_def)
  then show ?thesis
    by (simp add: return_0_def)
qed

lemma line_copies_ok:
  "straight_in_bounds UINT8 UINT8 n dstp srcp m \<Longrightarrow>
     \<exists>m'. return_0 (unaligned_memcpy dstp srcp n m) = Inr (0, m')"
  "straight_in_bounds UINT8 UINT16 n dstp srcp m \<Longrightarrow>
     \<exists>m'. return_0 (unaligned_2_to_1_memcpy dstp srcp n m) = Inr (0, m')"
  "straight_in_bounds UINT16 UINT16 n dstp srcp m \<Longrightarrow>
     \<exists>m'. return_0 (unaligned_memcpy_rev16 dstp srcp n m) = Inr (0, m')"
  "transposed_in_bounds dst_t src_t width h' dstp srcp m \<Longrightarrow>
     \<exists>m'. return_0 (copy_transposed_line dst_t src_t width h' dstp srcp m) = Inr (0, m')"
  "transposed_in_bounds dst_t src_t width h' dstp srcp m \<Longrightarrow>
     \<exists>m'. return_0 (copy_transposed_line_rev16 dst_t src_t width h' dstp srcp m) = Inr (0, m')"
  unfolding unaligned_memcpy_def unaligned_2_to_1_memcpy_def unaligned_memcpy_rev16_def
    copy_transposed_line_def copy_transposed_line_rev16_def
  by (rule straight_copy_ok transposed_copy_ok, assumption)+

text \<open>
  Claim C10, as the claim has it: \<^verbatim>\<open>sensor_copy_line\<close> is total and returns 0 for every
  pixel format and both transpose settings. This fails for a window of negative width
  with transpose on: the loop counter of the transposed copy starts below zero and
  counts down, and the copy leaves its buffers. The window -2 by -2 is one that
  \<^verbatim>\<open>sensor_auto_crop_framebuffer\<close> can leave (lemma \<open>auto_crop_negative_window\<close>); with
  256 bytes of memory from 4096 on, the source at 4096 and the destination at 4224, the
  66th store goes to the address 4094.
\<close>

theorem sensor_copy_line_negative_width_counterexample:
  "map_sum id fst
     (sensor_copy_line software_copy 0 4096 4224
        (line_state PIXFORMAT_BAYER (- 2) (- 2) True) example_memory)
   = Inl (OutOfBounds 4094)"
  by code_simp

text \<open>
  Claim C10, amended: for every pixel format and both transpose settings,
  \<^verbatim>\<open>sensor_copy_line\<close> returns 0 whenever the software copy it runs stays in memory
  (every element it reads or writes is there and, for a transposed copy, the window
  width is not negative) or the hardware offload takes the line; and for a pixel format
  that it does not recognise it returns 0 and copies nothing, whatever the window.
\<close>

theorem sensor_copy_line_in_bounds_returns_0:
  "(line_in_bounds ops dma src dst s m \<longrightarrow>
      (\<exists>m'. sensor_copy_line ops dma src dst s m = Inr (0, m'))) \<and>
   (pixformat (sensor s) \<noteq> PIXFORMAT_BAYER \<and> pixformat (sensor s) \<noteq> PIXFORMAT_GRAYSCALE \<and>
    pixformat (sensor s) \<noteq> PIXFORMAT_RGB565 \<and> pixformat (sensor s) \<noteq> PIXFORMAT_YUV422 \<longrightarrow>
      sensor_copy_line ops dma src dst s m = Inr (0, m))"
proof (intro conjI impI)
  assume "line_in_bounds ops dma src dst s m"
  then show "\<exists>m'. sensor_copy_line ops dma src dst s m = Inr (0, m')"
    unfolding line_in_bounds_def sensor_copy_line_def Let_def
    by (cases "pixformat (sensor s)"; cases "transpose (sensor s)";
        simp add: case_prod_beta line_copies_ok split: if_splits)
next
  assume "pixformat (sensor s) \<noteq> PIXFORMAT_BAYER \<and> pixformat (sensor s) \<noteq> PIXFORMAT_GRAYSCALE \<and>
    pixformat (sensor s) \<noteq> PIXFORMAT_RGB565 \<and> pixformat (sensor s) \<noteq> PIXFORMAT_YUV422"
  then show "sensor_copy_line ops dma src dst s m = Inr (0, m)"
    unfolding sensor_copy_line_def Let_def
    by (cases "pixformat (sensor s)") simp_all
qed

text \<open>
  A transposed copy of a 4 by 2 window of 1-byte pixels inside the memory returns 0,
  and so does the copy in the compressed format, which leaves the memory as it is.
\<close>

theorem sensor_copy_line_in_bounds_returns_0_witness:
  "line_in_bounds software_copy 0 4096 4224 (line_state PIXFORMAT_BAYER 4 2 True)
     example_memory \<and>
   (\<exists>m'. sensor_copy_line software_copy 0 4096 4224 (line_state PIXFORMAT_BAYER 4 2 True)
            example_memory = Inr (0, m')) \<and>
   sensor_copy_line software_copy 0 4096 4224 (line_state PIXFORMAT_JPEG 4 2 True)
     example_memory = Inr (0, example_memory)"
proof -
  have bounds: "line_in_bounds software_copy 0 4096 4224
      (line_state PIXFORMAT_BAYER 4 2 True) example_memory"
    by code_simp
  have fmt: "pixformat (sensor (line_state PIXFORMAT_JPEG 4 2 True)) = PIXFORMAT_JPEG"
    by (simp add: line_state_def)
  from sensor_copy_line_in_bounds_returns_0
         [of software_copy 0 4096 4224 "line_state PIXFORMAT_BAYER 4 2 True" example_memory]
       sensor_copy_line_in_bounds_returns_0
         [of software_copy 0 4096 4224 "line_state PIXFORMAT_JPEG 4 2 True" example_memory]
       bounds fmt
  show ?thesis
    by simp
qed

end
